theory Spec2Isabelle
  imports Complex_Main
begin

section \<open>Arrays, Python values and exceptions\<close>

text \<open>
  The module \<^verbatim>\<open>harold/_classes.py\<close> works on NumPy arrays of floats. A 2-D array is
  modelled by the list of its rows, a float by a real number (rounding, infinities and
  NaN are outside the model). An array without elements is the empty list.
\<close>

type_synonym matrix = "real list list"

text \<open>The exceptions the module raises: the Python class, and which raise site it was.\<close>

datatype msg =
    Noncausal | NoncausalEntries | NotFloat | InconsistentRows | NumDenShape
  | GainOnly | CommonNumDegree | CommonDenDegree | BadArgument | ShapeFixed
  | SamplingMismatch | ShapeMismatch | SizeMismatch | OutOfRange | Broadcast
  | NotSquare | BRows | CCols | DShape | Sequence | EmptyReduction | NoOperator
  | OnlyGains | Unpack

datatype py_error = ValueError msg | IndexError msg | TypeError msg | AttributeError msg

text \<open>Sequencing of calls that may raise: the first exception ends the computation.\<close>

definition andthen :: "py_error + 'a \<Rightarrow> ('a \<Rightarrow> py_error + 'b) \<Rightarrow> py_error + 'b" where
  "andthen r f = (case r of Inl e \<Rightarrow> Inl e | Inr x \<Rightarrow> f x)"

definition shape :: "matrix \<Rightarrow> nat \<times> nat" where
  "shape M = (length M, case M of [] \<Rightarrow> 0 | r # _ \<Rightarrow> length r)"

definition nrows :: "matrix \<Rightarrow> nat" where
  "nrows M = fst (shape M)"

definition ncols :: "matrix \<Rightarrow> nat" where
  "ncols M = snd (shape M)"

text \<open>\<^verbatim>\<open>M.size\<close>, the number of elements.\<close>

definition array_size :: "matrix \<Rightarrow> nat" where
  "array_size M = sum_list (map length M)"

text \<open>\<^verbatim>\<open>np.any(M)\<close>: some element is nonzero.\<close>

definition np_any :: "matrix \<Rightarrow> bool" where
  "np_any M = list_ex (list_ex (\<lambda>x. x \<noteq> 0)) M"

definition zeros :: "nat \<times> nat \<Rightarrow> matrix" where
  "zeros s = replicate (fst s) (replicate (snd s) 0)"

definition ones :: "nat \<times> nat \<Rightarrow> matrix" where
  "ones s = replicate (fst s) (replicate (snd s) 1)"

text \<open>
  NumPy broadcasting of a 2-D array to a target shape: an axis of length 1 is repeated,
  any other axis has to agree.
\<close>

definition broadcast_to :: "nat \<times> nat \<Rightarrow> matrix \<Rightarrow> matrix option" where
  "broadcast_to s M =
     (let (r, c) = s; (vr, vc) = shape M in
      if (vr = r \<or> vr = 1) \<and> (vc = c \<or> vc = 1) then
        Some (map (\<lambda>row. if vc = c then row else replicate c (hd row))
                  (if vr = r then M else replicate r (hd M)))
      else None)"

definition np_add :: "matrix \<Rightarrow> matrix \<Rightarrow> py_error + matrix" where
  "np_add X Y =
     (let (r1, c1) = shape X; (r2, c2) = shape Y;
          s = (if r1 = 1 then r2 else r1, if c1 = 1 then c2 else c1) in
      case (broadcast_to s X, broadcast_to s Y) of
        (Some X', Some Y') \<Rightarrow> Inr (map2 (map2 (+)) X' Y')
      | _ \<Rightarrow> Inl (ValueError Broadcast))"

text \<open>\<^verbatim>\<open>X @ Y\<close> on 2-D arrays.\<close>

definition matmul :: "matrix \<Rightarrow> matrix \<Rightarrow> py_error + matrix" where
  "matmul X Y =
     (if ncols X \<noteq> nrows Y then Inl (ValueError SizeMismatch)
      else Inr (map (\<lambda>row. map (\<lambda>col. sum_list (map2 (*) row col)) (transpose Y)) X))"

definition vstack :: "matrix \<Rightarrow> matrix \<Rightarrow> py_error + matrix" where
  "vstack X Y = (if ncols X \<noteq> ncols Y then Inl (ValueError SizeMismatch) else Inr (X @ Y))"

definition hstack :: "matrix \<Rightarrow> matrix \<Rightarrow> py_error + matrix" where
  "hstack X Y = (if nrows X \<noteq> nrows Y then Inl (ValueError SizeMismatch) else Inr (map2 (@) X Y))"

definition block_diag :: "matrix \<Rightarrow> matrix \<Rightarrow> matrix" where
  "block_diag X Y =
     map (\<lambda>r. r @ replicate (ncols Y) 0) X @ map (\<lambda>r. replicate (ncols X) 0 @ r) Y"

text \<open>
  The slice assignment \<^verbatim>\<open>M[r0:, :c1] = V\<close>: the target is the block of the rows from
  \<open>r0\<close> on and of the first \<open>c1\<close> columns; \<open>V\<close> is broadcast to the shape of that block,
  and NumPy raises ValueError when it cannot be.
\<close>

definition assign_block :: "matrix \<Rightarrow> nat \<Rightarrow> nat \<Rightarrow> matrix \<Rightarrow> py_error + matrix" where
  "assign_block M r0 c1 V =
     (let tr = nrows M - r0; tc = min c1 (ncols M) in
      case broadcast_to (tr, tc) V of
        None \<Rightarrow> Inl (ValueError Broadcast)
      | Some V' \<Rightarrow> Inr (take r0 M @ map2 (\<lambda>row v. v @ drop tc row) (drop r0 M) V'))"

text \<open>An array of \<open>r\<close> rows and \<open>c\<close> columns.\<close>

definition rect :: "nat \<Rightarrow> nat \<Rightarrow> matrix \<Rightarrow> bool" where
  "rect r c M = (length M = r \<and> list_all (\<lambda>row. length row = c) M)"

subsection \<open>Loops, grids and single elements\<close>

text \<open>A \<^verbatim>\<open>for\<close> loop over a state, and a loop that collects a list; an exception ends them.\<close>

fun for_each :: "'i list \<Rightarrow> ('i \<Rightarrow> 's \<Rightarrow> py_error + 's) \<Rightarrow> 's \<Rightarrow> py_error + 's" where
  "for_each [] f s = Inr s"
| "for_each (i # is) f s = andthen (f i s) (for_each is f)"

fun collect :: "'i list \<Rightarrow> ('i \<Rightarrow> py_error + 'a) \<Rightarrow> py_error + 'a list" where
  "collect [] f = Inr []"
| "collect (i # is) f = andthen (f i) (\<lambda>x. andthen (collect is f) (\<lambda>xs. Inr (x # xs)))"

text \<open>The shape of a grid as the source reads it: the rows, and the length of the first.\<close>

definition grid_shape :: "'a list list \<Rightarrow> nat \<times> nat" where
  "grid_shape L = (length L, case L of [] \<Rightarrow> 0 | r # _ \<Rightarrow> length r)"

definition grid_of :: "nat \<times> nat \<Rightarrow> 'a \<Rightarrow> 'a list list" where
  "grid_of s x = replicate (fst s) (replicate (snd s) x)"

text \<open>\<^verbatim>\<open>L[r][c]\<close> on a list of lists, and the assignment \<^verbatim>\<open>L[r][c] = v\<close>.\<close>

definition grid_get :: "'a list list \<Rightarrow> nat \<Rightarrow> nat \<Rightarrow> py_error + 'a" where
  "grid_get L r c =
     (if r < length L \<and> c < length (L ! r) then Inr (L ! r ! c) else Inl (IndexError OutOfRange))"

definition grid_set :: "'a list list \<Rightarrow> nat \<Rightarrow> nat \<Rightarrow> 'a \<Rightarrow> py_error + 'a list list" where
  "grid_set L r c v =
     (if r < length L \<and> c < length (L ! r) then Inr (L[r := (L ! r)[c := v]])
      else Inl (IndexError OutOfRange))"

text \<open>The grid built by a double loop over rows and columns.\<close>

definition build_grid :: "nat \<times> nat \<Rightarrow> (nat \<Rightarrow> nat \<Rightarrow> py_error + 'a) \<Rightarrow> py_error + 'a list list" where
  "build_grid s f = collect [0..<fst s] (\<lambda>r. collect [0..<snd s] (\<lambda>c. f r c))"

text \<open>A 1-by-1 array stored into one element of an array; a longer one is rejected.\<close>

definition item :: "matrix \<Rightarrow> py_error + real" where
  "item M = (case concat M of [x] \<Rightarrow> Inr x | _ \<Rightarrow> Inl (ValueError Sequence))"

text \<open>
  Elementwise division with broadcasting. A zero divisor gives an infinity or a NaN in
  NumPy and is outside the model.
\<close>

definition np_div :: "matrix \<Rightarrow> matrix \<Rightarrow> py_error + matrix" where
  "np_div X Y =
     (let (r1, c1) = shape X; (r2, c2) = shape Y;
          s = (if r1 = 1 then r2 else r1, if c1 = 1 then c2 else c1) in
      case (broadcast_to s X, broadcast_to s Y) of
        (Some X', Some Y') \<Rightarrow> Inr (map2 (map2 (/)) X' Y')
      | _ \<Rightarrow> Inl (ValueError Broadcast))"

definition scale :: "real \<Rightarrow> matrix \<Rightarrow> matrix" where
  "scale k M = map (map (\<lambda>x. k * x)) M"

definition reshape :: "nat \<times> nat \<Rightarrow> 'a list \<Rightarrow> 'a list list" where
  "reshape s xs = map (\<lambda>r. take (snd s) (drop (r * snd s) xs)) [0..<fst s]"

subsection \<open>Arguments as the caller writes them\<close>

text \<open>
  What NumPy reads as numbers: a number, a 1-D or 2-D array, or a list of such values.
  Lists nested deeper than a list of lists of coefficient lists are outside the model, and
  so is a list that holds \<^verbatim>\<open>None\<close> (which NumPy reads as NaN) or an object that is not a
  number: the type has no such list.
\<close>

datatype pyval = PNum real | PArr1 "real list" | PArr2 matrix | PList "pyval list"

text \<open>A constructor argument: \<^verbatim>\<open>None\<close>, such a value, or an object of another type.\<close>

datatype pyarg = ANone | AVal pyval | AObj

abbreviation ANum :: "real \<Rightarrow> pyarg" where
  "ANum x \<equiv> AVal (PNum x)"

abbreviation AArr1 :: "real list \<Rightarrow> pyarg" where
  "AArr1 xs \<equiv> AVal (PArr1 xs)"

abbreviation AArr2 :: "matrix \<Rightarrow> pyarg" where
  "AArr2 M \<equiv> AVal (PArr2 M)"

abbreviation AList :: "pyval list \<Rightarrow> pyarg" where
  "AList xs \<equiv> AVal (PList xs)"

fun is_num :: "pyval \<Rightarrow> bool" where
  "is_num (PNum x) = True"
| "is_num _ = False"

fun is_list :: "pyval \<Rightarrow> bool" where
  "is_list (PList xs) = True"
| "is_list _ = False"

fun num_val :: "pyval \<Rightarrow> real" where
  "num_val (PNum x) = x"
| "num_val _ = 0"

fun list_items :: "pyval \<Rightarrow> pyval list" where
  "list_items (PList xs) = xs"
| "list_items _ = []"

fun as_row :: "pyval \<Rightarrow> real list option" where
  "as_row (PList xs) = (if list_all is_num xs then Some (map num_val xs) else None)"
| "as_row (PArr1 xs) = Some xs"
| "as_row _ = None"

text \<open>
  \<^verbatim>\<open>np.atleast_2d(np.array(x, dtype='float'))\<close>; \<open>None\<close> when NumPy raises its ValueError
  for rows of different lengths.
\<close>

fun np_array_2d :: "pyval \<Rightarrow> matrix option" where
  "np_array_2d (PNum x) = Some [[x]]"
| "np_array_2d (PArr1 xs) = Some [xs]"
| "np_array_2d (PArr2 M) = Some M"
| "np_array_2d (PList xs) =
     (if list_all is_num xs then Some [map num_val xs]
      else if list_all (\<lambda>x. as_row x \<noteq> None) xs then
        (let rows = map (\<lambda>x. the (as_row x)) xs in
         if list_all (\<lambda>r. length r = length (hd rows)) rows then Some rows else None)
      else None)"

text \<open>
  The \<^verbatim>\<open>dt\<close> argument, and the setter of \<^verbatim>\<open>SamplingPeriod\<close> (the same in both classes). The
  setter tests the truth value first: \<^verbatim>\<open>False\<close>, \<^verbatim>\<open>None\<close>, zero and any other false object
  (an empty string or list) give a continuous-time model; of the true values \<^verbatim>\<open>True\<close> and
  the numbers are accepted. \<open>DtObj b\<close> is an object that is neither a truth value nor a
  number, with the truth value \<open>b\<close>.
\<close>

datatype dtarg = DtFalse | DtTrue | DtNone | DtNum real | DtObj bool

definition set_SamplingPeriod :: "dtarg \<Rightarrow> py_error + real option" where
  "set_SamplingPeriod v =
     (case v of
        DtFalse \<Rightarrow> Inr None
      | DtNone \<Rightarrow> Inr None
      | DtTrue \<Rightarrow> Inr (Some 0)
      | DtNum x \<Rightarrow> (if x = 0 then Inr None else Inr (Some x))
      | DtObj b \<Rightarrow> (if b then Inl (TypeError BadArgument) else Inr None))"

text \<open>Passing on a stored period, as in \<^verbatim>\<open>dt=self._dt\<close>.\<close>

definition dt_of :: "real option \<Rightarrow> dtarg" where
  "dt_of t = (case t of None \<Rightarrow> DtNone | Some x \<Rightarrow> DtNum x)"

section \<open>Numerical routines and transmission zeros\<close>

text \<open>
  Numerator and denominator data as \<^verbatim>\<open>Transfer\<close> stores them: one 2-D array of coefficients
  for a SISO model, a list of rows of such arrays for a MIMO model.
\<close>

datatype tfdata = SISO matrix | MIMO "matrix list list"

text \<open>
  The routines of LAPACK, SciPy and the other modules of the package are parameters of the
  model; the control flow between them is the module's. Each may raise.

  \<^item> \<open>matrix_rank\<close>: the rank that \<^verbatim>\<open>np.linalg.matrix_rank\<close> finds for an array with elements.
  \<^item> \<open>tzeros_reduce\<close>: the deflation loop \<^verbatim>\<open>_tzeros_reduce\<close>, built on \<^verbatim>\<open>haroldsvd\<close>.
  \<^item> \<open>pencil_zeros\<close>: the last step of \<^verbatim>\<open>transmission_zeros\<close>, from \<^verbatim>\<open>haroldsvd\<close> to \<^verbatim>\<open>qz\<close>.
  \<^item> \<open>eigvals\<close>: \<^verbatim>\<open>scipy.linalg.eigvals\<close>, and \<open>companion_eigvals\<close>:
    \<^verbatim>\<open>eigvals(haroldcompanion(p))\<close>. Their values go into the caches \<^verbatim>\<open>poles\<close> and \<^verbatim>\<open>zeros\<close>,
    which the model leaves out; what is kept is the exception, if they raise one.
  \<^item> \<open>realize\<close>: the realization that \<^verbatim>\<open>transfer_to_state\<close> computes for a model that is not
    a gain, with \<^verbatim>\<open>haroldcompanion\<close>, \<^verbatim>\<open>haroldpolydiv\<close>, \<^verbatim>\<open>haroldlcm\<close> and \<^verbatim>\<open>e_i\<close>; its \<open>A\<close>,
    \<open>B\<close>, \<open>C\<close> are \<^verbatim>\<open>None\<close> when a SISO entry cancels to a constant.
\<close>

record routines =
  matrix_rank :: "matrix \<Rightarrow> nat"
  tzeros_reduce ::
    "matrix \<Rightarrow> matrix \<Rightarrow> matrix \<Rightarrow> matrix \<Rightarrow> py_error + (matrix \<times> matrix \<times> matrix \<times> matrix)"
  pencil_zeros :: "matrix \<Rightarrow> matrix \<Rightarrow> matrix \<Rightarrow> matrix \<Rightarrow> py_error + complex list"
  eigvals :: "matrix \<Rightarrow> py_error option"
  companion_eigvals :: "matrix \<Rightarrow> py_error option"
  realize ::
    "tfdata \<Rightarrow> tfdata \<Rightarrow> nat \<times> nat \<Rightarrow>
     py_error + (matrix option \<times> matrix option \<times> matrix option \<times> matrix)"

text \<open>
  The first two lines of \<^verbatim>\<open>transmission_zeros\<close>, \<^verbatim>\<open>n, (p, m) = A.shape[0], D.shape\<close> and
  \<^verbatim>\<open>r = np.linalg.matrix_rank(D)\<close>, on a \<open>D\<close> without elements: if \<open>D\<close> is 1-D its shape
  cannot be unpacked, and if it is 2-D, \<^verbatim>\<open>matrix_rank\<close> takes the maximum of no singular
  values. Both raise ValueError.
\<close>

definition rank_of_D :: "routines \<Rightarrow> matrix \<Rightarrow> py_error + nat" where
  "rank_of_D rt D =
     (if array_size D = 0 then Inl (ValueError EmptyReduction) else Inr (matrix_rank rt D))"

text \<open>The end of \<^verbatim>\<open>transmission_zeros\<close>: nothing for an empty \<open>A\<close>, else the pencil.\<close>

definition zeros_of_reduced ::
  "routines \<Rightarrow> matrix \<Rightarrow> matrix \<Rightarrow> matrix \<Rightarrow> matrix \<Rightarrow> py_error + complex list" where
  "zeros_of_reduced rt A B C D = (if array_size A = 0 then Inr [] else pencil_zeros rt A B C D)"

definition transmission_zeros ::
  "routines \<Rightarrow> matrix \<Rightarrow> matrix \<Rightarrow> matrix \<Rightarrow> matrix \<Rightarrow> py_error + complex list" where
  "transmission_zeros rt A B C D =
     andthen (rank_of_D rt D) (\<lambda>r.
       (let (p, m) = shape D in
        if \<not> np_any B \<or> \<not> np_any C then Inr []
        else if (p = 1 \<and> m = 1 \<and> r > 0) \<or> (r = min p m \<and> p = m) then
          zeros_of_reduced rt A B C D
        else
          andthen (if r = p then Inr (A, B, C, D) else tzeros_reduce rt A B C D)
            (\<lambda>(Ar, Br, Cr, Dr).
               if array_size Ar = 0 then Inr []
               else
                 andthen (hstack Cr Dr) (\<lambda>CD.
                 andthen
                   (if \<not> np_any CD \<or> fst (shape Dr) \<noteq> snd (shape Dr) then
                      andthen
                        (tzeros_reduce rt (transpose Ar) (transpose Cr) (transpose Br)
                           (transpose Dr))
                        (\<lambda>(At, Ct, Bt, Dt).
                           Inr (transpose At, transpose Bt, transpose Ct, transpose Dt))
                    else Inr (Ar, Br, Cr, Dr))
                   (\<lambda>(Arc, Brc, Crc, Drc). zeros_of_reduced rt Arc Brc Crc Drc)))))"

text \<open>
  A constructor ends with \<^verbatim>\<open>self._recalc()\<close>, which fills the caches: the object is
  returned unless that call raised.
\<close>

definition built :: "py_error option \<Rightarrow> 'a \<Rightarrow> py_error + 'a" where
  "built r x = (case r of Some e \<Rightarrow> Inl e | None \<Rightarrow> Inr x)"

section \<open>The class State\<close>

text \<open>
  The fields of a \<^verbatim>\<open>State\<close> object. The caches \<^verbatim>\<open>poles\<close>, \<^verbatim>\<open>zeros\<close> and the stability
  flag, which \<^verbatim>\<open>_recalc\<close> fills, are left out.
\<close>

record State =
  st_a :: matrix
  st_b :: matrix
  st_c :: matrix
  st_d :: matrix
  st_shape :: "nat \<times> nat"
  st_isgain :: bool
  st_isSISO :: bool
  st_n :: "nat option"
  st_dt :: "real option"

definition State_regularize :: "pyarg \<Rightarrow> py_error + (matrix \<times> bool)" where
  "State_regularize x =
     (case x of
        ANone \<Rightarrow> Inr ([], True)
      | AObj \<Rightarrow> Inl (TypeError BadArgument)
      | AVal v \<Rightarrow> (case np_array_2d v of
                     None \<Rightarrow> Inl (ValueError NotFloat)
                   | Some M \<Rightarrow> Inr (M, False)))"

text \<open>
  The shape checks of \<^verbatim>\<open>State.validate_arguments\<close> for a model that is not a gain. The
  flags say which arguments were \<^verbatim>\<open>None\<close>: such an argument is a 1-D empty array, and taking
  its second dimension raises IndexError.
\<close>

definition State_check_shapes ::
  "matrix \<times> bool \<Rightarrow> matrix \<times> bool \<Rightarrow> matrix \<times> bool \<Rightarrow> matrix \<times> bool \<Rightarrow>
   py_error + (matrix \<times> matrix \<times> matrix \<times> matrix \<times> (nat \<times> nat) \<times> bool)" where
  "State_check_shapes ax bx cx dx =
     (let (a, na) = ax; (b, nb) = bx; (c, nc) = cx; (d, nd) = dx in
      if nrows a \<noteq> ncols a then Inl (ValueError NotSquare)
      else if nrows b \<noteq> nrows a \<and> \<not> (nrows b = 1 \<and> ncols b = nrows a)
        then Inl (ValueError BRows)
      else
        (let b2 = (if nrows b \<noteq> nrows a then transpose b else b) in
         if nc \<or> na then Inl (IndexError OutOfRange)
         else if ncols c \<noteq> ncols a then Inl (ValueError CCols)
         else if nb then Inl (IndexError OutOfRange)
         else
           (let user_shape = (nrows c, ncols b2);
                d1 = (if nd then zeros user_shape else d) in
            if shape d1 \<noteq> user_shape then
              (if nrows d1 = 1 \<and> shape d1 = (ncols b2, nrows c)
               then Inr (a, b2, c, map (\<lambda>x. [x]) (concat d1), user_shape, False)
               else Inl (ValueError DShape))
            else Inr (a, b2, c, d1, user_shape, False))))"

definition State_validate_arguments ::
  "pyarg \<Rightarrow> pyarg \<Rightarrow> pyarg \<Rightarrow> pyarg \<Rightarrow>
   py_error + (matrix \<times> matrix \<times> matrix \<times> matrix \<times> (nat \<times> nat) \<times> bool)" where
  "State_validate_arguments a b c d =
     andthen (State_regularize a) (\<lambda>ax.
     andthen (State_regularize b) (\<lambda>bx.
     andthen (State_regularize c) (\<lambda>cx.
     andthen (State_regularize d) (\<lambda>dx.
       if snd bx \<and> snd cx \<and> snd dx then
         Inr (fst dx, fst cx, fst bx, fst ax, shape (fst ax), True)
       else if snd ax \<and> snd bx \<and> snd cx then
         Inr (fst ax, fst bx, fst cx, fst dx, shape (fst dx), True)
       else State_check_shapes ax bx cx dx))))"

text \<open>
  \<^verbatim>\<open>State._recalc\<close>: nothing to compute for a gain, else the transmission zeros and the
  eigenvalues of \<open>A\<close>. The result is the exception, if one is raised.
\<close>

definition State_recalc :: "routines \<Rightarrow> State \<Rightarrow> py_error option" where
  "State_recalc rt G =
     (if st_isgain G then None
      else
        (case transmission_zeros rt (st_a G) (st_b G) (st_c G) (st_d G) of
           Inl e \<Rightarrow> Some e
         | Inr z \<Rightarrow> eigvals rt (st_a G)))"

text \<open>
  \<^verbatim>\<open>State.__init__\<close>. With four \<^verbatim>\<open>None\<close>s the shape is that of a 1-D array and cannot be
  unpacked into outputs and inputs.
\<close>

definition State_init ::
  "routines \<Rightarrow> pyarg \<Rightarrow> pyarg \<Rightarrow> pyarg \<Rightarrow> pyarg \<Rightarrow> dtarg \<Rightarrow> py_error + State" where
  "State_init rt a b c d dt =
     andthen (State_validate_arguments a b c d) (\<lambda>(a1, b1, c1, d1, s, gain).
       if a = ANone \<and> b = ANone \<and> c = ANone \<and> d = ANone then Inl (ValueError Unpack)
       else andthen (set_SamplingPeriod dt) (\<lambda>t.
         (let G = \<lparr>st_a = a1, st_b = b1, st_c = c1, st_d = d1, st_shape = s, st_isgain = gain,
                   st_isSISO = (s = (1, 1)), st_n = (if gain then None else Some (nrows a1)),
                   st_dt = t\<rparr>
          in built (State_recalc rt G) G)))"

text \<open>
  \<^verbatim>\<open>State.__add__\<close> for a \<^verbatim>\<open>State\<close> operand. When only \<^verbatim>\<open>other\<close> is a gain the code calls
  \<^verbatim>\<open>other + self\<close>, which passes the same two checks and takes the first branch there.
\<close>

definition State_add :: "routines \<Rightarrow> State \<Rightarrow> State \<Rightarrow> py_error + State" where
  "State_add rt self other =
     (if st_dt self \<noteq> st_dt other then Inl (TypeError SamplingMismatch)
      else if st_shape self \<noteq> st_shape other then Inl (IndexError ShapeMismatch)
      else if st_isgain self then
        (if st_isgain other then
           andthen (np_add (st_d self) (st_d other)) (\<lambda>d.
             State_init rt (AArr2 d) ANone ANone ANone (dt_of (st_dt self)))
         else
           andthen (np_add (st_d self) (st_d other)) (\<lambda>d.
             State_init rt (AArr2 (st_a other)) (AArr2 (st_b other)) (AArr2 (st_c other)) (AArr2 d)
               (dt_of (st_dt self))))
      else if st_isgain other then
        andthen (np_add (st_d other) (st_d self)) (\<lambda>d.
          State_init rt (AArr2 (st_a self)) (AArr2 (st_b self)) (AArr2 (st_c self)) (AArr2 d)
            (dt_of (st_dt other)))
      else
        andthen (vstack (st_b self) (st_b other)) (\<lambda>addb.
        andthen (hstack (st_c self) (st_c other)) (\<lambda>addc.
        andthen (np_add (st_d self) (st_d other)) (\<lambda>addd.
          State_init rt (AArr2 (block_diag (st_a self) (st_a other))) (AArr2 addb) (AArr2 addc)
            (AArr2 addd) DtFalse))))"

text \<open>
  \<^verbatim>\<open>State.__matmul__\<close> with a 2-D real array. For a gain the code multiplies
  \<^verbatim>\<open>self.to_array()\<close>; its fallback \<^verbatim>\<open>self.to_array * s\<close> multiplies a bound method and
  raises TypeError.
\<close>

definition State_matmul_array :: "routines \<Rightarrow> State \<Rightarrow> matrix \<Rightarrow> py_error + State" where
  "State_matmul_array rt self arr =
     (if snd (st_shape self) \<noteq> nrows arr \<and> array_size arr \<noteq> 1
        then Inl (ValueError ShapeMismatch)
      else if snd (st_shape self) \<noteq> nrows arr then
        (let s = hd (concat arr) in
         if st_isgain self then Inl (TypeError NoOperator)
         else State_init rt (AArr2 (st_a self)) (AArr2 (map (map (\<lambda>x. x * s)) (st_b self)))
                (AArr2 (st_c self)) (AArr2 (map (map (\<lambda>x. x * s)) (st_d self)))
                (dt_of (st_dt self)))
      else if st_isgain self then
        (case matmul (st_d self) arr of
           Inl e \<Rightarrow> Inl (TypeError NoOperator)
         | Inr mat \<Rightarrow> State_init rt (AArr2 mat) ANone ANone ANone (dt_of (st_dt self)))
      else
        andthen (matmul (st_b self) arr) (\<lambda>b1.
        andthen (matmul (st_d self) arr) (\<lambda>d1.
          State_init rt (AArr2 (st_a self)) (AArr2 b1) (AArr2 (st_c self)) (AArr2 d1)
            (dt_of (st_dt self)))))"

text \<open>
  \<^verbatim>\<open>State.__rmatmul__\<close> with a 2-D real array \<open>s\<close>, that is \<^verbatim>\<open>s @ self\<close>. For a gain the code
  multiplies by the bound method \<^verbatim>\<open>self.to_array\<close>, which NumPy rejects.
\<close>

definition State_rmatmul_array :: "routines \<Rightarrow> State \<Rightarrow> matrix \<Rightarrow> py_error + State" where
  "State_rmatmul_array rt self s =
     (if fst (st_shape self) \<noteq> ncols s then Inl (ValueError ShapeMismatch)
      else if st_isgain self then Inl (ValueError NoOperator)
      else
        andthen (matmul s (st_c self)) (\<lambda>c1.
        andthen (matmul s (st_d self)) (\<lambda>d1.
          State_init rt (AArr2 (st_a self)) (AArr2 (st_b self)) (AArr2 c1) (AArr2 d1)
            (dt_of (st_dt self)))))"

text \<open>
  \<^verbatim>\<open>State.__matmul__\<close> for a \<^verbatim>\<open>State\<close> operand. A gain operand is handed on as an array
  (\<^verbatim>\<open>self @ other.to_array()\<close>, and \<^verbatim>\<open>self.to_array() @ s\<close>, which Python dispatches to
  \<^verbatim>\<open>s.__rmatmul__\<close>); two dynamic models reach "case 6".
\<close>

definition State_matmul :: "routines \<Rightarrow> State \<Rightarrow> State \<Rightarrow> py_error + State" where
  "State_matmul rt self other =
     (if st_dt self \<noteq> st_dt other then Inl (TypeError SamplingMismatch)
      else if snd (st_shape self) \<noteq> fst (st_shape other) then Inl (IndexError ShapeMismatch)
      else if st_isgain other then State_matmul_array rt self (st_d other)
      else if st_isgain self then State_rmatmul_array rt other (st_d self)
      else
        andthen (matmul (st_b self) (st_c other)) (\<lambda>bc.
        andthen (assign_block (block_diag (st_a self) (st_a other))
                   (case st_n self of None \<Rightarrow> 0 | Some n \<Rightarrow> n) (nrows (st_a other)) bc) (\<lambda>multa.
        andthen (matmul (st_b self) (st_d other)) (\<lambda>bd.
        andthen (vstack bd (st_b other)) (\<lambda>multb.
        andthen (matmul (st_d self) (st_c other)) (\<lambda>dc.
        andthen (hstack (st_c self) dc) (\<lambda>multc.
        andthen (matmul (st_d self) (st_d other)) (\<lambda>multd.
          State_init rt (AArr2 multa) (AArr2 multb) (AArr2 multc) (AArr2 multd)
            (dt_of (st_dt self))))))))))"

subsection \<open>What a realization computes\<close>

text \<open>
  The meaning of a realization \<open>(A, B, C, D)\<close>, against which a series connection is judged:
  from the state \<open>x\<close> and the input \<open>u\<close> the output is \<open>C x + D u\<close> and the next state
  \<open>A x + B u\<close>. \<open>response G x us\<close> is the sequence of outputs for the inputs \<open>us\<close>. This is
  the standard semantics of the four matrices, not a function of the module. For a
  discrete-time model it is the behaviour in time; for a continuous-time model the response
  to a unit pulse lists the Markov parameters \<open>D\<close>, \<open>C B\<close>, \<open>C A B\<close>, ..., the coefficients of
  the transfer function in powers of \<open>1 / s\<close>. Realizations of one transfer function have
  the same response from the zero state.
\<close>

definition mat_vec :: "matrix \<Rightarrow> real list \<Rightarrow> real list" where
  "mat_vec M x = map (\<lambda>row. sum_list (map2 (*) row x)) M"

fun response :: "State \<Rightarrow> real list \<Rightarrow> real list list \<Rightarrow> real list list" where
  "response G x [] = []"
| "response G x (u # us) =
     map2 (+) (mat_vec (st_c G) x) (mat_vec (st_d G) u)
       # response G (map2 (+) (mat_vec (st_a G) x) (mat_vec (st_b G) u)) us"
section \<open>The class Transfer\<close>

text \<open>
  The fields of a \<^verbatim>\<open>Transfer\<close> object, without the caches, as for \<^verbatim>\<open>State\<close>.
\<close>

record Transfer =
  tf_num :: tfdata
  tf_den :: tfdata
  tf_shape :: "nat \<times> nat"
  tf_isgain :: bool
  tf_isSISO :: bool
  tf_dt :: "real option"

text \<open>
  Modelled from the spec: \<^verbatim>\<open>haroldtrimleftzeros\<close> belongs to \<^verbatim>\<open>_polynomial_ops.py\<close>, which
  is not part of this module. The spec: a polynomial is a sequence of coefficients, highest
  degree first, trimmed of its leading zero coefficients; the zero polynomial has the value
  \<open>[0]\<close>.
\<close>

definition haroldtrimleftzeros :: "matrix \<Rightarrow> real list" where
  "haroldtrimleftzeros M =
     (let xs = dropWhile (\<lambda>x. x = 0) (concat M) in if xs = [] then [0] else xs)"

text \<open>Stored data handed back to the constructor or the validator.\<close>

fun to_py :: "tfdata \<Rightarrow> pyval" where
  "to_py (SISO M) = PArr2 M"
| "to_py (MIMO L) = PList (map (\<lambda>row. PList (map PArr2 row)) L)"

text \<open>
  \<^verbatim>\<open>np.atleast_2d(numden[0]).astype(float)\<close> for a list of lists \<^verbatim>\<open>[[x]]\<close> with a single
  element. When \<open>x\<close> is a 2-D array NumPy adds a leading axis of length 1; the model drops
  that axis.
\<close>

fun strip_single :: "pyval \<Rightarrow> matrix option" where
  "strip_single (PNum x) = Some [[x]]"
| "strip_single (PArr2 M) = Some M"
| "strip_single x = map_option (\<lambda>r. [r]) (as_row x)"

text \<open>
  The loop of \<^verbatim>\<open>Transfer.validate_arguments\<close> over numerator and denominator gives the
  regularized entry, unset for \<^verbatim>\<open>None\<close>. The MIMO flag of the source is set exactly when the
  entry is a grid; the list \<^verbatim>\<open>Gain_flags\<close> is never read for the result and is left out.
\<close>

fun Transfer_regularize :: "pyarg \<Rightarrow> py_error + tfdata option" where
  "Transfer_regularize ANone = Inr None"
| "Transfer_regularize AObj = Inl (TypeError BadArgument)"
| "Transfer_regularize (AVal (PList xs)) =
     (if list_all is_list xs then
        (let m = map (\<lambda>x. length (list_items x)) xs in
         if length xs = 1 \<and> hd m = 1 then
           (case strip_single (hd (list_items (hd xs))) of
              None \<Rightarrow> Inl (ValueError NotFloat)
            | Some M \<Rightarrow> Inr (Some (SISO M)))
         else if xs = [] then Inl (ValueError EmptyReduction)
         else if list_all (\<lambda>k. k = hd m) m then
           (if list_all (\<lambda>y. list_all (\<lambda>x. np_array_2d x \<noteq> None) (list_items y)) xs
            then Inr (Some (MIMO (map (\<lambda>y. map (\<lambda>x. the (np_array_2d x)) (list_items y)) xs)))
            else Inl (ValueError NotFloat))
         else Inl (IndexError InconsistentRows))
      else if list_all is_num xs then Inr (Some (SISO [map num_val xs]))
      else Inl (ValueError NotFloat))"
| "Transfer_regularize (AVal (PArr1 xs)) = Inr (Some (SISO [xs]))"
| "Transfer_regularize (AVal (PArr2 M)) =
     (if min (nrows M) (ncols M) > 1
      then Inr (Some (MIMO (map (map (\<lambda>x. [[x]])) M)))
      else Inr (Some (SISO M)))"
| "Transfer_regularize (AVal (PNum x)) = Inr (Some (SISO [[x]]))"

text \<open>Both entries MIMO: equal shapes, and causality of every entry after trimming.\<close>

definition both_MIMO :: "matrix list list \<Rightarrow> matrix list list \<Rightarrow> py_error + (tfdata \<times> tfdata)" where
  "both_MIMO N D =
     (if grid_shape N \<noteq> grid_shape D then Inl (IndexError NumDenShape)
      else if list_ex (\<lambda>(x, y). length (haroldtrimleftzeros x) > length (haroldtrimleftzeros y))
                (zip (concat N) (concat D))
        then Inl (ValueError NoncausalEntries)
      else Inr (MIMO N, MIMO D))"

text \<open>Cases 3 and 4 of the source: the denominator is MIMO, the numerator is not.\<close>

definition den_MIMO :: "tfdata option \<Rightarrow> matrix list list \<Rightarrow> py_error + (tfdata \<times> tfdata)" where
  "den_MIMO n D =
     (case n of
        None \<Rightarrow> Inr (MIMO (grid_of (grid_shape D) [[1]]), MIMO D)
      | Some (MIMO N) \<Rightarrow> Inr (MIMO N, MIMO D)
      | Some (SISO Nm) \<Rightarrow>
          (if list_ex (\<lambda>y. array_size y < length (haroldtrimleftzeros Nm)) (concat D)
           then Inl (ValueError CommonNumDegree)
           else Inr (MIMO (grid_of (grid_shape D) Nm), MIMO D)))"

text \<open>Cases 1 and 2 of the source: the numerator is MIMO, the denominator is not.\<close>

definition num_MIMO :: "matrix list list \<Rightarrow> tfdata option \<Rightarrow> py_error + (tfdata \<times> tfdata)" where
  "num_MIMO N d =
     (case d of
        None \<Rightarrow>
          (if list_ex (\<lambda>x. \<not> array_size x < 2) (concat N) then Inl (ValueError GainOnly)
           else Inr (MIMO N, MIMO (grid_of (grid_shape N) [[1]])))
      | Some (MIMO D) \<Rightarrow> Inr (MIMO N, MIMO D)
      | Some (SISO Dm) \<Rightarrow>
          (if list_ex (\<lambda>x. array_size x > length (haroldtrimleftzeros Dm)) (concat N)
           then Inl (ValueError CommonDenDegree)
           else Inr (MIMO N, MIMO (grid_of (grid_shape N) Dm))))"

text \<open>
  Both entries SISO. The sizes compared are those of the arrays as given. With two
  \<^verbatim>\<open>None\<close>s the denominator is still the empty Python list, which has no \<^verbatim>\<open>size\<close>.
\<close>

definition both_SISO :: "tfdata option \<Rightarrow> tfdata option \<Rightarrow> py_error + (tfdata \<times> tfdata)" where
  "both_SISO n d =
     (case (n, d) of
        (None, None) \<Rightarrow> Inl (AttributeError BadArgument)
      | (None, Some (SISO Dm)) \<Rightarrow>
          (if array_size [[1]] > array_size Dm then Inl (ValueError Noncausal)
           else Inr (SISO [[1]], SISO Dm))
      | (Some (SISO Nm), None) \<Rightarrow>
          (if array_size Nm > array_size [[1]] then Inl (ValueError Noncausal)
           else Inr (SISO Nm, SISO [[1]]))
      | (Some (SISO Nm), Some (SISO Dm)) \<Rightarrow>
          (if array_size Nm > array_size Dm then Inl (ValueError Noncausal)
           else Inr (SISO Nm, SISO Dm))
      | _ \<Rightarrow> Inl (AttributeError BadArgument))"

text \<open>The shape of the result and the "final gateway for the static gain".\<close>

definition finalize :: "tfdata \<times> tfdata \<Rightarrow> py_error + (tfdata \<times> tfdata \<times> (nat \<times> nat) \<times> bool)" where
  "finalize nd =
     (let (num, den) = nd;
          s = (case num of MIMO N \<Rightarrow> grid_shape N | SISO M \<Rightarrow> (1, 1)) in
      case den of
        MIMO D \<Rightarrow>
          (if concat D = [] then Inl (ValueError EmptyReduction)
           else Inr (num, den, s, foldr max (map array_size (concat D)) 0 = 1))
      | SISO Dm \<Rightarrow> Inr (num, den, s, array_size Dm = 1))"

definition Transfer_validate_arguments ::
  "pyarg \<Rightarrow> pyarg \<Rightarrow> py_error + (tfdata \<times> tfdata \<times> (nat \<times> nat) \<times> bool)" where
  "Transfer_validate_arguments num den =
     andthen (Transfer_regularize num) (\<lambda>n.
     andthen (Transfer_regularize den) (\<lambda>d.
     andthen
       (case (n, d) of
          (Some (MIMO N), Some (MIMO D)) \<Rightarrow> both_MIMO N D
        | (Some (MIMO N), _) \<Rightarrow> num_MIMO N d
        | (_, Some (MIMO D)) \<Rightarrow> den_MIMO n D
        | _ \<Rightarrow> both_SISO n d)
       finalize))"

subsection \<open>The conversion to a State model\<close>

text \<open>
  \<^verbatim>\<open>transfer_to_state\<close>. Its argument is a \<^verbatim>\<open>Transfer\<close>, a \<^verbatim>\<open>State\<close> (returned as it is) or
  a numerator and a denominator; the result is the four matrices or a \<^verbatim>\<open>State\<close>. The
  constructor of \<^verbatim>\<open>Transfer\<close> calls it for a MIMO model, so it comes first.
\<close>

datatype t2s_arg = OfTransfer Transfer | OfState State | OfNumDen pyarg pyarg

datatype t2s_result = AsMatrices "matrix option" "matrix option" "matrix option" matrix | AsState State

text \<open>
  The gain matrix of the static-gain branch. For a model that is not SISO the array is
  allocated as \<^verbatim>\<open>np.empty((m, p))\<close> and filled at \<^verbatim>\<open>[rows, cols]\<close> for \<open>rows < p\<close> and
  \<open>cols < m\<close>.
\<close>

definition store :: "matrix \<Rightarrow> nat \<Rightarrow> nat \<Rightarrow> matrix \<Rightarrow> py_error + matrix" where
  "store D r c v =
     (if r < nrows D \<and> c < ncols D then andthen (item v) (\<lambda>x. Inr (D[r := (D ! r)[c := x]]))
      else Inl (IndexError OutOfRange))"

text \<open>The loop body \<^verbatim>\<open>D[rows, cols] = num[rows][cols]/den[rows][cols]\<close>.\<close>

definition store_quotient ::
  "matrix list list \<Rightarrow> matrix list list \<Rightarrow> nat \<Rightarrow> nat \<Rightarrow> matrix \<Rightarrow> py_error + matrix" where
  "store_quotient N Dn rows cols D =
     andthen (grid_get N rows cols) (\<lambda>n.
     andthen (grid_get Dn rows cols) (\<lambda>d.
     andthen (np_div n d) (\<lambda>q. store D rows cols q)))"

definition gain_matrix :: "tfdata \<Rightarrow> tfdata \<Rightarrow> nat \<Rightarrow> nat \<Rightarrow> py_error + matrix" where
  "gain_matrix num den p m =
     (if max m p > 1 then
        (case (num, den) of
           (MIMO N, MIMO Dn) \<Rightarrow>
             for_each [0..<p] (\<lambda>rows. for_each [0..<m] (store_quotient N Dn rows))
               (zeros (m, p))
         | _ \<Rightarrow> Inl (IndexError OutOfRange))
      else
        (case (num, den) of
           (SISO n, SISO d) \<Rightarrow> np_div n d
         | _ \<Rightarrow> Inl (TypeError NoOperator)))"

text \<open>A matrix, or \<^verbatim>\<open>None\<close>, as an argument of the constructor of \<^verbatim>\<open>State\<close>.\<close>

definition opt_arg :: "matrix option \<Rightarrow> pyarg" where
  "opt_arg x = (case x of None \<Rightarrow> ANone | Some M \<Rightarrow> AArr2 M)"

definition transfer_to_state :: "routines \<Rightarrow> t2s_arg \<Rightarrow> string \<Rightarrow> py_error + t2s_result" where
  "transfer_to_state rt arg output =
     (if output \<noteq> ''system'' \<and> output \<noteq> ''matrices'' then Inl (ValueError BadArgument)
      else
        (case arg of
           OfState G \<Rightarrow> Inr (AsState G)
         | _ \<Rightarrow>
           andthen
             (case arg of
                OfNumDen num den \<Rightarrow>
                  andthen (Transfer_validate_arguments num den) (\<lambda>(n, d, s, gain).
                    Inr (n, d, s, gain, None))
              | OfTransfer G \<Rightarrow> Inr (tf_num G, tf_den G, tf_shape G, tf_isgain G, tf_dt G))
             (\<lambda>(num, den, (p, m), it_is_gain, dt).
                if it_is_gain then
                  andthen (gain_matrix num den p m) (\<lambda>D.
                    if output = ''matrices''
                    then Inr (AsMatrices (Some []) (Some []) (Some []) D)
                    else andthen (State_init rt (AArr2 D) ANone ANone ANone (dt_of dt))
                           (\<lambda>G. Inr (AsState G)))
                else
                  andthen (realize rt num den (p, m)) (\<lambda>(A, B, C, D).
                    if output = ''matrices'' then Inr (AsMatrices A B C D)
                    else andthen (State_init rt (opt_arg A) (opt_arg B) (opt_arg C) (AArr2 D)
                                    (dt_of dt))
                           (\<lambda>G. Inr (AsState G))))))"

subsection \<open>The constructor and the setter of the numerator\<close>

text \<open>
  \<^verbatim>\<open>Transfer._recalc\<close>: nothing to compute for a gain; for a SISO model the eigenvalues of
  the companion matrix of the denominator and, unless the numerator has a single
  coefficient, of the numerator; for a MIMO model a realization, its transmission zeros
  and the eigenvalues of its \<open>A\<close>. The result is the exception, if one is raised. The
  constructor stores arrays in a SISO model and grids in any other; the remaining
  combination cannot be built.
\<close>

definition Transfer_recalc :: "routines \<Rightarrow> Transfer \<Rightarrow> py_error option" where
  "Transfer_recalc rt G =
     (if tf_isgain G then None
      else if tf_isSISO G then
        (case (tf_num G, tf_den G) of
           (SISO n, SISO d) \<Rightarrow>
             (case companion_eigvals rt d of
                Some e \<Rightarrow> Some e
              | None \<Rightarrow> if array_size n = 1 then None else companion_eigvals rt n)
         | _ \<Rightarrow> Some (AttributeError BadArgument))
      else
        (case transfer_to_state rt (OfNumDen (AVal (to_py (tf_num G))) (AVal (to_py (tf_den G))))
                ''matrices'' of
           Inl e \<Rightarrow> Some e
         | Inr (AsMatrices (Some A) (Some B) (Some C) D) \<Rightarrow>
             (case transmission_zeros rt A B C D of
                Inl e \<Rightarrow> Some e
              | Inr z \<Rightarrow> eigvals rt A)
         | Inr _ \<Rightarrow> Some (AttributeError BadArgument)))"

text \<open>\<^verbatim>\<open>Transfer.__init__\<close>.\<close>

definition Transfer_init :: "routines \<Rightarrow> pyarg \<Rightarrow> pyarg \<Rightarrow> dtarg \<Rightarrow> py_error + Transfer" where
  "Transfer_init rt num den dt =
     andthen (Transfer_validate_arguments num den) (\<lambda>(n, d, s, gain).
     andthen (set_SamplingPeriod dt) (\<lambda>t.
       (let G = \<lparr>tf_num = n, tf_den = d, tf_shape = s, tf_isgain = gain,
                 tf_isSISO = (s = (1, 1)), tf_dt = t\<rparr>
        in built (Transfer_recalc rt G) G)))"

text \<open>
  The setter of \<^verbatim>\<open>num\<close>. It acts on the object: the result is the exception, if any, and the
  object after the call. The numerator is assigned before \<^verbatim>\<open>_recalc\<close> is called: an
  exception of \<^verbatim>\<open>_recalc\<close> leaves the object with the new numerator.
\<close>

definition num_setter :: "routines \<Rightarrow> Transfer \<Rightarrow> pyarg \<Rightarrow> py_error option \<times> Transfer" where
  "num_setter rt self v =
     (case Transfer_validate_arguments v (AVal (to_py (tf_den self))) of
        Inl e \<Rightarrow> (Some e, self)
      | Inr (user_num, user_den, user_shape, g) \<Rightarrow>
          if user_shape \<noteq> tf_shape self then (Some (IndexError ShapeFixed), self)
          else (Transfer_recalc rt (self\<lparr>tf_num := user_num\<rparr>), self\<lparr>tf_num := user_num\<rparr>))"

subsection \<open>Arithmetic of Transfer\<close>

text \<open>
  \<^verbatim>\<open>haroldlcm\<close> (the least common multiple of two denominators and the two cofactors) and
  \<^verbatim>\<open>haroldpolyadd\<close> belong to \<^verbatim>\<open>_polynomial_ops.py\<close>; they are parameters.
\<close>

record polyops =
  haroldlcm :: "matrix \<Rightarrow> matrix \<Rightarrow> real list \<times> real list \<times> real list"
  haroldpolyadd :: "real list \<Rightarrow> real list \<Rightarrow> real list"

text \<open>The sum of two coefficient sequences, aligned at the constant terms.\<close>

definition radd :: "real list \<Rightarrow> real list \<Rightarrow> real list" where
  "radd xs ys =
     map2 (+) (replicate (length ys - length xs) 0 @ xs) (replicate (length xs - length ys) 0 @ ys)"

fun poly_mul :: "real list \<Rightarrow> real list \<Rightarrow> real list" where
  "poly_mul [] v = []"
| "poly_mul (x # xs) v = radd (map (\<lambda>y. x * y) v @ replicate (length xs) 0) (poly_mul xs v)"

text \<open>\<^verbatim>\<open>np.convolve\<close>: the product of two coefficient sequences; NumPy rejects an empty one.\<close>

definition np_convolve :: "real list \<Rightarrow> real list \<Rightarrow> py_error + real list" where
  "np_convolve a v = (if a = [] \<or> v = [] then Inl (ValueError EmptyReduction) else Inr (poly_mul a v))"

definition grid_py :: "matrix list list \<Rightarrow> pyval" where
  "grid_py L = PList (map (\<lambda>row. PList (map PArr2 row)) L)"

text \<open>
  \<^verbatim>\<open>self._num + other.num\<close>: NumPy addition on two arrays, but concatenation on two Python
  lists.
\<close>

fun py_plus :: "tfdata \<Rightarrow> tfdata \<Rightarrow> py_error + pyval" where
  "py_plus (SISO X) (SISO Y) = andthen (np_add X Y) (\<lambda>Z. Inr (PArr2 Z))"
| "py_plus (MIMO K) (MIMO L) = Inr (grid_py (K @ L))"
| "py_plus _ _ = Inl (TypeError NoOperator)"

text \<open>One entry of the sum of two dynamic models: numerator, denominator.\<close>

definition add_entry :: "polyops \<Rightarrow> matrix \<Rightarrow> matrix \<Rightarrow> matrix \<Rightarrow> matrix \<Rightarrow> py_error + (real list \<times> real list)" where
  "add_entry po n1 d1 n2 d2 =
     (let (lcm, m0, m1) = haroldlcm po d1 d2 in
      andthen (np_convolve (concat n1) m0) (\<lambda>c0.
      andthen (np_convolve (concat n2) m1) (\<lambda>c1.
        Inr (haroldpolyadd po c0 c1, lcm))))"

text \<open>
  \<^verbatim>\<open>Transfer.__add__\<close> for a \<^verbatim>\<open>Transfer\<close> operand. The constructor stores arrays in a SISO
  model and grids in any other; the remaining combinations cannot be built and end the
  branches below with an exception.
\<close>

definition Transfer_add :: "routines \<Rightarrow> polyops \<Rightarrow> Transfer \<Rightarrow> Transfer \<Rightarrow> py_error + Transfer" where
  "Transfer_add rt po self other =
     (if tf_dt self \<noteq> tf_dt other then Inl (TypeError SamplingMismatch)
      else if tf_shape self \<noteq> tf_shape other then Inl (IndexError ShapeMismatch)
      else if tf_isgain self \<and> tf_isgain other then
        andthen (py_plus (tf_num self) (tf_num other)) (\<lambda>n.
          Transfer_init rt (AVal n) ANone (dt_of (tf_dt self)))
      else if tf_isSISO self then
        (case (tf_num self, tf_den self, tf_num other, tf_den other) of
           (SISO n1, SISO d1, SISO n2, SISO d2) \<Rightarrow>
             andthen (add_entry po n1 d1 n2 d2) (\<lambda>(newnum, lcm).
               if list_all (\<lambda>x. x = 0) newnum then Transfer_init rt (ANum 0) (ANum 1) DtFalse
               else Transfer_init rt (AArr1 newnum) (AArr1 lcm) DtFalse)
         | _ \<Rightarrow> Inl (AttributeError BadArgument))
      else
        (case (tf_num self, tf_den self, tf_num other, tf_den other) of
           (MIMO n1, MIMO d1, MIMO n2, MIMO d2) \<Rightarrow>
             andthen (build_grid (tf_shape self) (\<lambda>r c.
               andthen (grid_get d1 r c) (\<lambda>sd.
               andthen (grid_get d2 r c) (\<lambda>od.
               andthen (grid_get n1 r c) (\<lambda>sn.
               andthen (grid_get n2 r c) (\<lambda>on.
                 add_entry po sn sd on od)))))) (\<lambda>g.
               if list_ex (list_ex (\<lambda>(n, d). \<not> list_all (\<lambda>x. x = 0) n)) g then
                 Transfer_init rt (AList (map (\<lambda>row. PList (map (\<lambda>(n, d). PArr2 [n]) row)) g))
                   (AList (map (\<lambda>row. PList (map (\<lambda>(n, d). PArr1 d) row)) g))
                   (dt_of (tf_dt self))
               else
                 Transfer_init rt (AList (map (\<lambda>row. PList (map PNum row)) (zeros (tf_shape self))))
                   ANone DtFalse)
         | _ \<Rightarrow> Inl (TypeError BadArgument)))"

text \<open>\<^verbatim>\<open>Transfer.to_array\<close>.\<close>

definition to_array :: "Transfer \<Rightarrow> py_error + matrix" where
  "to_array self =
     (if \<not> tf_isgain self then Inl (TypeError OnlyGains)
      else if tf_isSISO self then
        (case (tf_num self, tf_den self) of
           (SISO n, SISO d) \<Rightarrow> np_div n d
         | _ \<Rightarrow> Inl (TypeError NoOperator))
      else
        (case (tf_num self, tf_den self) of
           (MIMO N, MIMO D) \<Rightarrow>
             andthen (collect [0..<fst (tf_shape self) * snd (tf_shape self)] (\<lambda>x.
               if x < length (concat N) then
                 andthen (item (concat N ! x)) (\<lambda>nx.
                   if x < length (concat D) then
                     andthen (item (concat D ! x)) (\<lambda>dx. Inr (nx / dx))
                   else Inl (IndexError OutOfRange))
               else Inl (IndexError OutOfRange))) (\<lambda>xs. Inr (reshape (tf_shape self) xs))
         | _ \<Rightarrow> Inl (TypeError NoOperator)))"

text \<open>\<^verbatim>\<open>Transfer.__mul__\<close> with a number.\<close>

definition Transfer_mul_scalar :: "routines \<Rightarrow> Transfer \<Rightarrow> real \<Rightarrow> py_error + Transfer" where
  "Transfer_mul_scalar rt self k =
     (if tf_isSISO self then
        (if k = 0 then Transfer_init rt (ANum 0) (ANum 1) (dt_of (tf_dt self))
         else
           (case tf_num self of
              SISO n \<Rightarrow>
                Transfer_init rt (AArr2 (scale k n)) (AVal (to_py (tf_den self))) (dt_of (tf_dt self))
            | MIMO N \<Rightarrow> Inl (TypeError NoOperator)))
      else
        (case (tf_num self, tf_den self) of
           (MIMO N, MIMO D) \<Rightarrow>
             andthen (build_grid (tf_shape self) (\<lambda>r c.
               if k = 0 then Inr ([[0]], [[1]])
               else andthen (grid_get N r c) (\<lambda>n. andthen (grid_get D r c) (\<lambda>d.
                      Inr (scale k n, d))))) (\<lambda>g.
               Transfer_init rt (AVal (grid_py (map (map fst) g))) (AVal (grid_py (map (map snd) g)))
                 (dt_of (tf_dt self)))
         | _ \<Rightarrow> Inl (TypeError NoOperator)))"

text \<open>\<^verbatim>\<open>Transfer.__mul__\<close> with a 2-D real array: the product entry by entry.\<close>

definition Transfer_mul_array :: "routines \<Rightarrow> Transfer \<Rightarrow> matrix \<Rightarrow> py_error + Transfer" where
  "Transfer_mul_array rt self arr =
     (if array_size arr = 1 then Transfer_mul_scalar rt self (hd (concat arr))
      else if tf_isSISO self then
        (case tf_num self of
           SISO n \<Rightarrow>
             andthen (build_grid (shape arr) (\<lambda>r c.
               if arr ! r ! c = 0 then Inr ([[0]], PArr2 [[1]])
               else Inr (scale (arr ! r ! c) n, to_py (tf_den self)))) (\<lambda>g.
               Transfer_init rt (AVal (grid_py (map (map fst) g)))
                 (AList (map (\<lambda>row. PList (map snd row)) g))
                 (dt_of (tf_dt self)))
         | MIMO N \<Rightarrow> Inl (TypeError NoOperator))
      else if tf_shape self = shape arr then
        (case (tf_num self, tf_den self) of
           (MIMO N, MIMO D) \<Rightarrow>
             andthen (build_grid (shape arr) (\<lambda>r c.
               if arr ! r ! c = 0 then Inr ([[0]], [[1]])
               else andthen (grid_get N r c) (\<lambda>n. andthen (grid_get D r c) (\<lambda>d.
                      Inr (scale (arr ! r ! c) n, d))))) (\<lambda>g.
               Transfer_init rt (AVal (grid_py (map (map fst) g))) (AVal (grid_py (map (map snd) g)))
                 (dt_of (tf_dt self)))
         | _ \<Rightarrow> Inl (TypeError NoOperator))
      else Inl (ValueError ShapeMismatch))"

text \<open>
  The holders \<^verbatim>\<open>newnum\<close> and \<^verbatim>\<open>newden\<close> of \<^verbatim>\<open>Transfer.__matmul__\<close> as arguments of the
  constructor. An entry that is still \<^verbatim>\<open>None\<close> would be read by NumPy as NaN, which the
  model does not have: the model leaves it unspecified. No run gets there: a pass of the
  loop raises, so the holders reach the constructor only when they have no entries.
\<close>

definition holder_py :: "tfdata option list list \<Rightarrow> pyval" where
  "holder_py g = PList (map (\<lambda>row. PList (map (\<lambda>e. to_py (the e)) row)) g)"

text \<open>
  \<^verbatim>\<open>Transfer.__matmul__\<close> with a 2-D real array. In the loop for a dynamic MIMO model the
  expression \<^verbatim>\<open>sum(*(self[r]*arr[:, c]))\<close> goes through \<^verbatim>\<open>__getitem__\<close>, \<^verbatim>\<open>__mul__\<close>, the
  iteration protocol and \<^verbatim>\<open>__radd__\<close>; its outcome, an exception or some model, is the
  parameter \<open>t_G\<close>. The holders \<^verbatim>\<open>newnum\<close> and \<^verbatim>\<open>newden\<close> have \<open>tp\<close> rows of \<open>tm\<close> entries
  \<^verbatim>\<open>None\<close>, and the loop body stores at \<^verbatim>\<open>[tp][tm]\<close>.
\<close>

definition Transfer_matmul_array ::
  "routines \<Rightarrow> (nat \<Rightarrow> nat \<Rightarrow> py_error + Transfer) \<Rightarrow> Transfer \<Rightarrow> matrix \<Rightarrow> py_error + Transfer" where
  "Transfer_matmul_array rt t_G self arr =
     (if tf_isSISO self then Transfer_mul_array rt self arr
      else if array_size arr = 1 then Transfer_mul_scalar rt self (hd (concat arr))
      else if snd (tf_shape self) \<noteq> nrows arr then Inl (ValueError SizeMismatch)
      else if tf_isgain self then
        andthen (to_array self) (\<lambda>g. andthen (matmul g arr) (\<lambda>prod.
          Transfer_init rt (AArr2 prod) ANone (dt_of (tf_dt self))))
      else
        (let tp = fst (tf_shape self); tm = ncols arr in
         andthen
           (for_each [0..<tp] (\<lambda>r. for_each [0..<tm] (\<lambda>c (newnum, newden).
              andthen (t_G r c) (\<lambda>t.
              andthen (grid_set newnum tp tm (Some (tf_num t))) (\<lambda>newnum'.
              andthen (grid_set newden tp tm (Some (tf_den t))) (\<lambda>newden'.
                Inr (newnum', newden'))))))
              (grid_of (tp, tm) None, grid_of (tp, tm) None))
           (\<lambda>(newnum, newden).
              Transfer_init rt (AVal (holder_py newnum)) (AVal (holder_py newden))
                (dt_of (tf_dt self)))))"

section \<open>The conversion to a Transfer model\<close>

subsection \<open>Strings as objects\<close>

text \<open>
  \<^verbatim>\<open>state_to_transfer\<close> compares strings with \<^verbatim>\<open>is\<close>, which is identity of objects. A string
  object is its identity and its characters. \<^verbatim>\<open>str.lower\<close> builds a new object; the
  interpreter gives it an identity that no object alive has, here the next unused one.
\<close>

record pystr =
  str_id :: nat
  str_chars :: string

definition lower_char :: "char \<Rightarrow> char" where
  "lower_char c =
     (let k = (of_char c :: nat) in if 65 \<le> k \<and> k \<le> 90 then char_of (k + 32) else c)"

definition str_lower :: "nat \<Rightarrow> pystr \<Rightarrow> pystr" where
  "str_lower fresh s = \<lparr>str_id = fresh, str_chars = map lower_char (str_chars s)\<rparr>"

definition py_is :: "pystr \<Rightarrow> pystr \<Rightarrow> bool" where
  "py_is s t = (str_id s = str_id t)"

text \<open>
  \<^verbatim>\<open>state_to_transfer\<close>. The argument is a \<^verbatim>\<open>State\<close>, a \<^verbatim>\<open>Transfer\<close>, a tuple, or something else.
  \<open>lit\<close> is the constant \<^verbatim>\<open>'polynomials'\<close> of the function's code, \<open>fresh\<close> the first unused
  identity at the call: the first \<^verbatim>\<open>output.lower()\<close> of a run gets \<open>fresh\<close>, the second
  \<open>fresh + 1\<close>. The entries of a dynamic model come from \<^verbatim>\<open>eigvals\<close>, \<^verbatim>\<open>haroldpoly\<close>,
  \<^verbatim>\<open>transmission_zeros\<close> and \<^verbatim>\<open>lstsq\<close>: the parameter \<open>entries\<close> gives the grid of numerators
  and the common denominator.
\<close>

datatype s2t_arg = ArgState State | ArgTransfer Transfer | ArgTuple "pyarg list" | ArgOther

datatype s2t_result = Polynomials pyval pyval | System Transfer

text \<open>An array that \<^verbatim>\<open>State.validate_arguments\<close> returned, passed to it again.\<close>

definition as_arg :: "matrix \<Rightarrow> pyarg" where
  "as_arg M = (if M = [] then AArr1 [] else AArr2 M)"

text \<open>
  \<^verbatim>\<open>_state_or_abcd(arg, 4)\<close>: nothing for a model, the validated matrices for a tuple of
  four. Before the validation the function reads \<^verbatim>\<open>arg[0].shape\<close> as a pair,
  \<^verbatim>\<open>arg[1].shape[1]\<close> and \<^verbatim>\<open>arg[2].shape[0]\<close>: an element that is not an array has no
  \<^verbatim>\<open>shape\<close>, and a 1-D array has a shape of one number.
\<close>

definition shape_pair :: "pyarg \<Rightarrow> py_error + unit" where
  "shape_pair x =
     (case x of
        AVal (PArr2 M) \<Rightarrow> Inr ()
      | AVal (PArr1 v) \<Rightarrow> Inl (ValueError Unpack)
      | _ \<Rightarrow> Inl (AttributeError BadArgument))"

definition shape_at_1 :: "pyarg \<Rightarrow> py_error + unit" where
  "shape_at_1 x =
     (case x of
        AVal (PArr2 M) \<Rightarrow> Inr ()
      | AVal (PArr1 v) \<Rightarrow> Inl (IndexError OutOfRange)
      | _ \<Rightarrow> Inl (AttributeError BadArgument))"

definition shape_at_0 :: "pyarg \<Rightarrow> py_error + unit" where
  "shape_at_0 x =
     (case x of
        AVal (PArr2 M) \<Rightarrow> Inr ()
      | AVal (PArr1 v) \<Rightarrow> Inr ()
      | _ \<Rightarrow> Inl (AttributeError BadArgument))"

definition state_or_abcd :: "s2t_arg \<Rightarrow> py_error + (matrix \<times> matrix \<times> matrix \<times> matrix) option" where
  "state_or_abcd arg =
     (case arg of
        ArgState G \<Rightarrow> Inr None
      | ArgTransfer G \<Rightarrow> Inl (TypeError BadArgument)
      | ArgOther \<Rightarrow> Inl (TypeError BadArgument)
      | ArgTuple xs \<Rightarrow>
          (case xs of
             [a, b, c, d] \<Rightarrow>
               andthen (shape_pair a) (\<lambda>_.
               andthen (shape_at_1 b) (\<lambda>_.
               andthen (shape_at_0 c) (\<lambda>_.
               andthen (State_validate_arguments a b c d) (\<lambda>(a1, b1, c1, d1, s, g).
                 Inr (Some (a1, b1, c1, d1))))))
           | _ \<Rightarrow> Inl (ValueError BadArgument)))"

definition state_to_transfer ::
  "routines \<Rightarrow>
   (matrix \<Rightarrow> matrix \<Rightarrow> matrix \<Rightarrow> matrix \<Rightarrow> py_error + (real list list list \<times> real list)) \<Rightarrow>
   pystr \<Rightarrow> nat \<Rightarrow> s2t_arg \<Rightarrow> pystr \<Rightarrow> py_error + s2t_result" where
  "state_to_transfer rt entries lit fresh arg output =
     (if str_chars (str_lower fresh output) \<noteq> ''system''
         \<and> str_chars (str_lower fresh output) \<noteq> ''polynomials''
      then Inl (ValueError BadArgument)
      else
        andthen (state_or_abcd arg) (\<lambda>validated.
        andthen
          (case (arg, validated) of
             (ArgState G, _) \<Rightarrow>
               Inr (st_a G, st_b G, st_c G, st_d G, st_shape G, st_isgain G, st_dt G)
           | (_, Some (a, b, c, d)) \<Rightarrow>
               andthen (State_validate_arguments (as_arg a) (as_arg b) (as_arg c) (as_arg d))
                 (\<lambda>(a1, b1, c1, d1, s, g). Inr (a1, b1, c1, d1, s, g, None))
           | _ \<Rightarrow> Inl (TypeError BadArgument))
          (\<lambda>(A, B, C, D, s, it_is_gain, ZR).
             if it_is_gain then
               (if py_is (str_lower (fresh + 1) output) lit
                then Inr (Polynomials (PArr2 D) (PArr2 (ones (shape D))))
                else andthen (Transfer_init rt (AArr2 D) ANone (dt_of ZR)) (\<lambda>G. Inr (System G)))
             else
               andthen (entries A B C D) (\<lambda>(nums, entry_den).
                 (let p = nrows C; m = ncols B;
                      num_list = (if (p, m) = (1, 1) then PArr1 (hd (hd nums))
                                  else PList (map (\<lambda>row. PList (map PArr1 row)) nums));
                      den_list = (if (p, m) = (1, 1) then PArr1 entry_den
                                  else PList (replicate p (PList (replicate m (PArr1 entry_den)))))
                  in if py_is (str_lower (fresh + 1) output) lit
                     then Inr (Polynomials num_list den_list)
                     else andthen (Transfer_init rt (AVal num_list) (AVal den_list) (dt_of ZR))
                            (\<lambda>G. Inr (System G)))))))"

section \<open>Models used in the examples\<close>

text \<open>
  One choice of the numerical routines, for evaluating the model on concrete inputs: every
  routine returns. The rank is right for the matrices of rank at most one; the realization
  has one state and no coupling.
\<close>

definition sample_routines :: routines where
  "sample_routines =
     \<lparr>matrix_rank = (\<lambda>M. if np_any M then 1 else 0),
      tzeros_reduce = (\<lambda>A B C D. Inr (A, B, C, D)),
      pencil_zeros = (\<lambda>A B C D. Inr [0]),
      eigvals = (\<lambda>A. None),
      companion_eigvals = (\<lambda>p. None),
      realize = (\<lambda>num den s. Inr (Some [[0]], Some (zeros (1, snd s)), Some (zeros (fst s, 1)), zeros s))\<rparr>"

text \<open>
  Modelled from the spec: \<^verbatim>\<open>haroldlcm\<close> and \<^verbatim>\<open>haroldpolyadd\<close> of \<^verbatim>\<open>_polynomial_ops.py\<close> are
  missing. The spec: the least common multiple of the denominators with cofactor
  multipliers, and polynomial addition. This instance is for two entries with one and the
  same monic denominator only: the least common multiple is that denominator and both
  cofactors are 1.
\<close>

definition same_den_polyops :: polyops where
  "same_den_polyops = \<lparr>haroldlcm = (\<lambda>d1 d2. (concat d1, [1], [1])), haroldpolyadd = radd\<rparr>"

text \<open>\<^verbatim>\<open>State(a, 1, 1, 0, dt)\<close>: one state, the transfer function \<open>1 / (s - a)\<close>.\<close>

definition lag :: "real \<Rightarrow> real option \<Rightarrow> State" where
  "lag a t =
     \<lparr>st_a = [[a]], st_b = [[1]], st_c = [[1]], st_d = [[0]], st_shape = (1, 1),
      st_isgain = False, st_isSISO = True, st_n = Some 1, st_dt = t\<rparr>"

text \<open>\<^verbatim>\<open>State([[0, 1], [-2, -3]], [[0], [1]], [[1, 0]], 0)\<close>: two states.\<close>

definition two_states :: State where
  "two_states =
     \<lparr>st_a = [[0, 1], [-2, -3]], st_b = [[0], [1]], st_c = [[1, 0]], st_d = [[0]],
      st_shape = (1, 1), st_isgain = False, st_isSISO = True, st_n = Some 2, st_dt = None\<rparr>"

text \<open>\<^verbatim>\<open>State(D)\<close>: a static gain.\<close>

definition gain_state :: "matrix \<Rightarrow> State" where
  "gain_state D =
     \<lparr>st_a = [], st_b = [], st_c = [], st_d = D, st_shape = shape D, st_isgain = True,
      st_isSISO = (shape D = (1, 1)), st_n = None, st_dt = None\<rparr>"

text \<open>\<^verbatim>\<open>Transfer([1], [1, 1], dt)\<close>: the transfer function \<open>1 / (s + 1)\<close>.\<close>

definition lag_tf :: "real option \<Rightarrow> Transfer" where
  "lag_tf t =
     \<lparr>tf_num = SISO [[1]], tf_den = SISO [[1, 1]], tf_shape = (1, 1), tf_isgain = False,
      tf_isSISO = True, tf_dt = t\<rparr>"

text \<open>\<^verbatim>\<open>Transfer(N)\<close> for a list of lists of numbers that is not 1-by-1: a MIMO static gain.\<close>

definition gain_tf :: "matrix list list \<Rightarrow> Transfer" where
  "gain_tf N =
     \<lparr>tf_num = MIMO N, tf_den = MIMO (grid_of (grid_shape N) [[1]]), tf_shape = grid_shape N,
      tf_isgain = True, tf_isSISO = False, tf_dt = None\<rparr>"

text \<open>\<^verbatim>\<open>Transfer(1, 2)\<close>: the SISO static gain one half.\<close>

definition half :: Transfer where
  "half =
     \<lparr>tf_num = SISO [[1]], tf_den = SISO [[2]], tf_shape = (1, 1), tf_isgain = True,
      tf_isSISO = True, tf_dt = None\<rparr>"

text \<open>\<^verbatim>\<open>Transfer([[[1], [1]], [[1], [1]]], [1, 1])\<close>: every entry is \<open>1 / (s + 1)\<close>.\<close>

definition lags_2x2 :: Transfer where
  "lags_2x2 =
     \<lparr>tf_num = MIMO [[[[1]], [[1]]], [[[1]], [[1]]]],
      tf_den = MIMO [[[[1, 1]], [[1, 1]]], [[[1, 1]], [[1, 1]]]],
      tf_shape = (2, 2), tf_isgain = False, tf_isSISO = False, tf_dt = None\<rparr>"

text \<open>\<^verbatim>\<open>Transfer([[[1]], [[1]]], [1, 1])\<close>: two outputs, one input.\<close>

definition lags_2x1 :: Transfer where
  "lags_2x1 =
     \<lparr>tf_num = MIMO [[[[1]]], [[[1]]]], tf_den = MIMO [[[[1, 1]]], [[[1, 1]]]],
      tf_shape = (2, 1), tf_isgain = False, tf_isSISO = False, tf_dt = None\<rparr>"

text \<open>The string constant \<^verbatim>\<open>'polynomials'\<close>, an object with the identity 0.\<close>

definition polynomials_literal :: pystr where
  "polynomials_literal = \<lparr>str_id = 0, str_chars = ''polynomials''\<rparr>"

text \<open>
  The degree of a coefficient sequence in the words of the specification: its length
  after trimming the leading zero coefficients, minus one.
\<close>

definition degree :: "real list \<Rightarrow> nat" where
  "degree xs = length (haroldtrimleftzeros [xs]) - 1"

section \<open>Shapes of values and invariants of models\<close>




text \<open>
  What the constructor establishes about the shape and the denominator of a model: a SISO
  model has the shape \<open>(1, 1)\<close> and one array with a single row or a single column, any
  other model a grid of that shape.
\<close>

definition Transfer_wf :: "Transfer \<Rightarrow> bool" where
  "Transfer_wf G =
     (tf_isSISO G = (tf_shape G = (1, 1)) \<and>
      (case tf_den G of
         SISO Dm \<Rightarrow> tf_shape G = (1, 1) \<and> min (nrows Dm) (ncols Dm) \<le> 1
       | MIMO D \<Rightarrow> tf_shape G \<noteq> (1, 1) \<and> D \<noteq> [] \<and> grid_shape D = tf_shape G \<and>
                   list_all (\<lambda>row. length row = snd (tf_shape G)) D))"

section \<open>Properties\<close>

lemmas np_defs = shape_def nrows_def ncols_def array_size_def zeros_def ones_def broadcast_to_def
  np_add_def np_div_def matmul_def vstack_def hstack_def block_diag_def assign_block_def
  andthen_def Let_def

lemmas State_defs = State_init_def State_validate_arguments_def State_regularize_def
  State_check_shapes_def set_SamplingPeriod_def dt_of_def

lemmas Transfer_defs = Transfer_init_def Transfer_validate_arguments_def both_MIMO_def
  den_MIMO_def num_MIMO_def both_SISO_def finalize_def grid_shape_def grid_of_def
  haroldtrimleftzeros_def set_SamplingPeriod_def dt_of_def grid_py_def

lemmas sample_defs = sample_routines_def State_recalc_def Transfer_recalc_def
  transmission_zeros_def rank_of_D_def zeros_of_reduced_def np_any_def

subsection \<open>The caches\<close>

lemma built_simps [simp]: "built None x = Inr x" "built (Some e) x = Inl e"
  by (simp_all add: built_def)

lemma built_Inr: "built r x = Inr y \<Longrightarrow> y = x"
  by (cases r) simp_all

lemma built_map: "(case built r x of Inl e \<Rightarrow> Inl e | Inr y \<Rightarrow> Inr (f y)) = built r (f x)"
  by (cases r) simp_all

text \<open>Nothing is computed for a gain.\<close>

lemma State_recalc_gain [simp]: "st_isgain G \<Longrightarrow> State_recalc rt G = None"
  by (simp add: State_recalc_def)

lemma Transfer_recalc_gain [simp]: "tf_isgain G \<Longrightarrow> Transfer_recalc rt G = None"
  by (simp add: Transfer_recalc_def)

text \<open>A SISO model with a single coefficient in the numerator: the poles only.\<close>

lemma Transfer_recalc_SISO_constant:
  assumes "\<not> tf_isgain G" "tf_isSISO G" "tf_num G = SISO n" "tf_den G = SISO d" "array_size n = 1"
  shows "Transfer_recalc rt G = companion_eigvals rt d"
  using assms by (cases "companion_eigvals rt d") (simp_all add: Transfer_recalc_def)

subsection \<open>Shapes and loops\<close>

lemma shape_rect: "rect r c M \<Longrightarrow> 0 < r \<Longrightarrow> shape M = (r, c)"
  by (cases M) (auto simp: rect_def shape_def)

lemma length_transpose_rect:
  assumes "rect k c Y" "0 < k"
  shows "length (transpose Y) = c"
proof -
  have "foldr (\<lambda>xs. max (length xs)) Y 0 = c"
    if "list_all (\<lambda>row. length row = c) Y" "Y \<noteq> []"
    using that
  proof (induction Y)
    case Nil
    then show ?case by simp
  next
    case (Cons y Y)
    then show ?case by (cases Y) simp_all
  qed
  with assms show ?thesis
    by (auto simp: length_transpose rect_def)
qed

lemma matmul_rect:
  assumes "rect r k X" "rect k c Y" "0 < r" "0 < k"
  shows "\<exists>Z. matmul X Y = Inr Z \<and> rect r c Z"
  using assms shape_rect [OF assms(1) assms(3)] shape_rect [OF assms(2) assms(4)]
    length_transpose_rect [OF assms(2) assms(4)]
  by (auto simp: matmul_def nrows_def ncols_def rect_def list_all_iff)

lemma block_diag_shape:
  assumes "rect n1 n1 A1" "rect n2 n2 A2" "0 < n1"
  shows "shape (block_diag A1 A2) = (n1 + n2, n1 + n2)"
  using assms by (cases A1; cases A2) (auto simp: block_diag_def shape_def rect_def ncols_def)

lemma for_each_append: "for_each (xs @ ys) f s = andthen (for_each xs f s) (for_each ys f)"
  by (induction xs arbitrary: s) (auto simp: andthen_def split: sum.splits)

lemma for_each_invariant:
  assumes "P s" and "\<And>i s s'. i \<in> set xs \<Longrightarrow> P s \<Longrightarrow> f i s = Inr s' \<Longrightarrow> P s'"
    and "for_each xs f s = Inr s'"
  shows "P s'"
  using assms
proof (induction xs arbitrary: s)
  case Nil
  then show ?case by simp
next
  case (Cons i xs)
  from Cons.prems(3) obtain s1 where s1: "f i s = Inr s1" "for_each xs f s1 = Inr s'"
    by (auto simp: andthen_def split: sum.splits)
  from Cons.prems(2) [of i s s1] Cons.prems(1) s1(1) have p1: "P s1"
    by simp
  have step: "P t'" if "j \<in> set xs" "P t" "f j t = Inr t'" for j t t'
    using Cons.prems(2) [of j t t'] that by simp
  from Cons.IH [OF p1 step s1(2)] show ?case
    by simp
qed

subsection \<open>The sample models are what the constructors build\<close>

text \<open>
  A gain is built whatever the routines do; a dynamic model is built unless a routine that
  fills its caches raises, and is built with the sample routines.
\<close>

lemma lag_init:
  "State_init rt (ANum (-1)) (ANum 1) (ANum 1) (ANum 0) (DtNum (1/10))
     = built (State_recalc rt (lag (-1) (Some (1/10)))) (lag (-1) (Some (1/10)))"
  "State_init rt (ANum (-1)) (ANum 1) (ANum 1) (ANum 0) DtFalse
     = built (State_recalc rt (lag (-1) None)) (lag (-1) None)"
  "State_init rt (ANum (-2)) (ANum 1) (ANum 1) (ANum 0) DtFalse
     = built (State_recalc rt (lag (-2) None)) (lag (-2) None)"
  by (simp_all add: lag_def State_defs np_defs)

lemma lag_init_sample:
  "State_init sample_routines (ANum (-1)) (ANum 1) (ANum 1) (ANum 0) (DtNum (1/10))
     = Inr (lag (-1) (Some (1/10)))"
  "State_init sample_routines (ANum (-1)) (ANum 1) (ANum 1) (ANum 0) DtFalse = Inr (lag (-1) None)"
  "State_init sample_routines (ANum (-2)) (ANum 1) (ANum 1) (ANum 0) DtFalse = Inr (lag (-2) None)"
  by (simp_all add: lag_def State_defs sample_defs np_defs)

lemma two_states_init:
  "State_init sample_routines (AList [PList [PNum 0, PNum 1], PList [PNum (-2), PNum (-3)]])
     (AList [PList [PNum 0], PList [PNum 1]]) (AList [PList [PNum 1, PNum 0]]) (ANum 0) DtFalse
   = Inr two_states"
  by (simp add: two_states_def State_defs sample_defs np_defs)

lemma gain_state_init: "State_init rt (ANum 2) ANone ANone ANone DtFalse = Inr (gain_state [[2]])"
  by (simp add: gain_state_def State_defs np_defs)

lemma lag_tf_init:
  "Transfer_init rt (AList [PNum 1]) (AList [PNum 1, PNum 1]) (DtNum (1/10))
     = built (companion_eigvals rt [[1, 1]]) (lag_tf (Some (1/10)))"
  "Transfer_init rt (AList [PNum 1]) (AList [PNum 1, PNum 1]) DtFalse
     = built (companion_eigvals rt [[1, 1]]) (lag_tf None)"
  by (simp_all add: lag_tf_def Transfer_defs Transfer_recalc_SISO_constant np_defs)

lemma gain_tf_init:
  "Transfer_init rt (AList [PList [PNum 1, PNum 2]]) ANone DtFalse = Inr (gain_tf [[[[1]], [[2]]]])"
  "Transfer_init rt (AList [PList [PNum 1], PList [PNum 2]]) ANone DtFalse
     = Inr (gain_tf [[[[1]]], [[[2]]]])"
  "Transfer_init rt (AList [PList [PNum 1, PNum 2], PList [PNum 3, PNum 4]]) ANone DtFalse
     = Inr (gain_tf [[[[1]], [[2]]], [[[3]], [[4]]]])"
  by (simp_all add: gain_tf_def Transfer_defs np_defs)

lemma half_init: "Transfer_init rt (ANum 1) (ANum 2) DtFalse = Inr half"
  by (simp add: half_def Transfer_defs np_defs)

lemma lags_2x1_init:
  "Transfer_init rt (AList [PList [PList [PNum 1]], PList [PList [PNum 1]]]) (AList [PNum 1, PNum 1])
     DtFalse = built (Transfer_recalc rt lags_2x1) lags_2x1"
  by (simp add: lags_2x1_def Transfer_defs np_defs numeral_2_eq_2)

lemma lags_2x2_init:
  "Transfer_init rt
     (AList [PList [PList [PNum 1], PList [PNum 1]], PList [PList [PNum 1], PList [PNum 1]]])
     (AList [PNum 1, PNum 1]) DtFalse = built (Transfer_recalc rt lags_2x2) lags_2x2"
  by (simp add: lags_2x2_def Transfer_defs np_defs numeral_2_eq_2)

subsection \<open>Transmission zeros\<close>

lemma np_any_False_iff: "\<not> np_any M \<longleftrightarrow> (\<forall>r \<in> set M. \<forall>x \<in> set r. x = 0)"
  by (auto simp: np_any_def list_ex_iff)

text \<open>
  The rank of \<open>D\<close> is computed before \<open>B\<close> and \<open>C\<close> are looked at: for a \<open>D\<close> without elements
  the call raises, whatever \<open>B\<close> and \<open>C\<close> are.
\<close>

lemma transmission_zeros_no_elements:
  "array_size D = 0 \<Longrightarrow> transmission_zeros rt A B C D = Inl (ValueError EmptyReduction)"
  by (simp add: transmission_zeros_def rank_of_D_def andthen_def)

text \<open>
  A realization with two states, one output and no input passes the validation of
  \<^verbatim>\<open>State\<close>; its \<open>B\<close> has no nonzero element, and \<^verbatim>\<open>transmission_zeros\<close> raises on it. So
  C9, which says that the function returns for every realization with such a \<open>B\<close>, does
  not hold as it is stated.
\<close>

theorem transmission_zeros_no_inputs_raises:
  "State_validate_arguments (AArr2 [[0, 1], [-2, -3]]) (AArr2 [[], []]) (AArr2 [[1, 0]]) (AArr2 [[]])
     = Inr ([[0, 1], [-2, -3]], [[], []], [[1, 0]], [[]], (1, 0), False)
   \<and> \<not> np_any [[], []]
   \<and> transmission_zeros sample_routines [[0, 1], [-2, -3]] [[], []] [[1, 0]] [[]]
       = Inl (ValueError EmptyReduction)"
  by (simp add: State_validate_arguments_def State_regularize_def State_check_shapes_def
      sample_defs np_defs)

text \<open>
  C9, amended. For every realization \<open>(A, B, C, D)\<close> whose \<open>D\<close> has at least one element and
  in which \<open>B\<close> is identically zero or \<open>C\<close> is identically zero, \<^verbatim>\<open>transmission_zeros\<close>
  returns the empty array of zeros and does not fail, whatever the numerical routines
  would compute or raise.
\<close>

theorem transmission_zeros_degenerate:
  assumes "array_size D \<noteq> 0"
    and "(\<forall>r \<in> set B. \<forall>x \<in> set r. x = 0) \<or> (\<forall>r \<in> set C. \<forall>x \<in> set r. x = 0)"
  shows "transmission_zeros rt A B C D = Inr []"
proof -
  from assms(2) have "\<not> np_any B \<or> \<not> np_any C"
    by (simp add: np_any_False_iff)
  with assms(1) show ?thesis
    by (auto simp: transmission_zeros_def rank_of_D_def andthen_def Let_def split: prod.splits)
qed

theorem transmission_zeros_degenerate_witness:
  "array_size [[0 :: real]] \<noteq> 0 \<and> \<not> np_any [[0], [0]] \<and>
   transmission_zeros sample_routines [[0, 1], [-2, -3]] [[0], [0]] [[1, 0]] [[0]] = Inr []"
  using transmission_zeros_degenerate
    [of "[[0]]" "[[0], [0]]" "[[1, 0]]" sample_routines "[[0, 1], [-2, -3]]"]
  by (simp add: np_any_def array_size_def)

text \<open>With \<open>B\<close> and \<open>C\<close> nonzero the sample routines are reached: the short cut is a real branch.\<close>

lemma transmission_zeros_sample:
  "transmission_zeros sample_routines [[0, 1], [-2, -3]] [[0], [1]] [[1, 0]] [[1]] = Inr [0]"
  by (simp add: sample_defs np_defs)

text \<open>The constructor of \<^verbatim>\<open>State\<close> ends with that call: it raises for a model without inputs.\<close>

lemma State_init_no_inputs:
  "State_init rt (AArr2 [[0, 1], [-2, -3]]) (AArr2 [[], []]) (AArr2 [[1, 0]]) (AArr2 [[]]) DtFalse
     = Inl (ValueError EmptyReduction)"
  by (simp add: State_defs State_recalc_def transmission_zeros_def rank_of_D_def np_defs)

subsection \<open>state\_to\_transfer and the keyword 'polynomials'\<close>

lemma lower_polynomials: "map lower_char ''polynomials'' = ''polynomials''"
  by (simp add: lower_char_def)

text \<open>
  The comparison \<^verbatim>\<open>output.lower() is 'polynomials'\<close> is between a new object and a constant
  that exists before the call, so no call returns the pair of polynomials.
\<close>

lemma state_to_transfer_never_polynomials:
  "str_id lit < fresh \<Longrightarrow> state_to_transfer rt entries lit fresh arg out \<noteq> Inr (Polynomials n d)"
  by (auto simp: state_to_transfer_def andthen_def py_is_def str_lower_def Let_def
      split: if_splits sum.splits prod.splits)

text \<open>
  For the dynamic model of the theorem below and any routines: the \<^verbatim>\<open>Transfer\<close> object is
  returned unless the eigenvalue routine raises on the companion matrix of \<open>s + 1\<close>.
\<close>

lemma state_to_transfer_polynomials_dynamic:
  "state_to_transfer rt (\<lambda>A B C D. Inr ([[[1]]], [1, 1])) polynomials_literal 1
     (ArgState (lag (-1) None)) polynomials_literal
   = built (companion_eigvals rt [[1, 1]]) (System (lag_tf None))"
  by (simp add: state_to_transfer_def state_or_abcd_def str_lower_def py_is_def
      polynomials_literal_def lower_char_def lag_def lag_tf_def
      Transfer_defs Transfer_recalc_SISO_constant built_map np_defs)

text \<open>
  C1 says that \<^verbatim>\<open>state_to_transfer\<close> with \<^verbatim>\<open>output='polynomials'\<close> returns the numerator and
  the denominator (for a static gain: \<open>D\<close> and a matrix of ones) and not a \<^verbatim>\<open>Transfer\<close>
  object. The code returns a \<^verbatim>\<open>Transfer\<close> object: for the static gain \<^verbatim>\<open>State(2)\<close>, and for
  the dynamic model \<^verbatim>\<open>State(-1, 1, 1, 0)\<close> when the numerical part finds the entry
  \<open>1 / (s + 1)\<close>. The keyword is passed as the very constant the function compares with.
\<close>

theorem state_to_transfer_polynomials_returns_system:
  "state_to_transfer rt entries polynomials_literal 1 (ArgState (gain_state [[2]])) polynomials_literal
     = Inr (System \<lparr>tf_num = SISO [[2]], tf_den = SISO [[1]], tf_shape = (1, 1),
                    tf_isgain = True, tf_isSISO = True, tf_dt = None\<rparr>)
   \<and> state_to_transfer sample_routines (\<lambda>A B C D. Inr ([[[1]]], [1, 1])) polynomials_literal 1
        (ArgState (lag (-1) None)) polynomials_literal
     = Inr (System (lag_tf None))"
  by (simp add: state_to_transfer_def state_or_abcd_def str_lower_def py_is_def
      polynomials_literal_def lower_char_def gain_state_def lag_def lag_tf_def
      sample_routines_def State_defs Transfer_defs Transfer_recalc_SISO_constant np_defs)

subsection \<open>transfer\_to\_state on static gains\<close>

text \<open>A square gain is converted as the documentation says.\<close>

lemma transfer_to_state_gain_square:
  "transfer_to_state rt (OfTransfer (gain_tf [[[[1]], [[2]]], [[[3]], [[4]]]])) ''matrices''
     = Inr (AsMatrices (Some []) (Some []) (Some []) [[1, 2], [3, 4]])"
  "transfer_to_state rt (OfTransfer half) ''matrices''
     = Inr (AsMatrices (Some []) (Some []) (Some []) [[1/2]])"
  by (simp_all add: transfer_to_state_def gain_matrix_def store_quotient_def gain_tf_def half_def
      grid_get_def store_def item_def Transfer_defs np_defs)

text \<open>
  A store keeps the shape of \<open>D\<close>, and a store outside that shape raises. So for a gain with
  \<open>p \<noteq> m\<close> some pass of the double loop raises, whatever the entries are.
\<close>

lemma store_rect:
  assumes "rect r c D" "store D i j v = Inr D'"
  shows "rect r c D'"
proof -
  from assms(2) obtain x where d': "D' = D[i := (D ! i)[j := x]]"
    by (auto simp: store_def andthen_def split: if_splits sum.splits)
  have "length (D' ! k) = c" if "k < length D" for k
    using assms(1) that by (cases "k = i") (simp_all add: d' rect_def list_all_length)
  with assms(1) show ?thesis
    by (simp add: d' rect_def list_all_length)
qed

lemma store_out_of_range:
  "rect r c D \<Longrightarrow> 0 < r \<Longrightarrow> \<not> (i < r \<and> j < c) \<Longrightarrow> store D i j v = Inl (IndexError OutOfRange)"
  using shape_rect [of r c D] by (auto simp: store_def nrows_def ncols_def)

lemma store_quotient_rect: "rect r c D \<Longrightarrow> store_quotient N Dn i j D = Inr D' \<Longrightarrow> rect r c D'"
  by (auto simp: store_quotient_def andthen_def split: sum.splits dest: store_rect)

lemma store_quotient_out_of_range:
  "rect r c D \<Longrightarrow> 0 < r \<Longrightarrow> \<not> (i < r \<and> j < c) \<Longrightarrow> \<exists>e. store_quotient N Dn i j D = Inl e"
  using store_out_of_range [of r c D i j]
  by (auto simp: store_quotient_def andthen_def split: sum.splits)

lemma row_rect:
  "rect r c D \<Longrightarrow> for_each js (store_quotient N Dn i) D = Inr D' \<Longrightarrow> rect r c D'"
  by (rule for_each_invariant [where P = "rect r c" and f = "store_quotient N Dn i"])
    (auto dest: store_quotient_rect)

lemma row_out_of_range:
  assumes "rect r c D" "0 < r" "j \<in> set js" "\<not> (i < r \<and> j < c)"
  shows "\<exists>e. for_each js (store_quotient N Dn i) D = Inl e"
proof -
  from assms(3) obtain xs ys where js: "js = xs @ j # ys"
    by (auto simp: in_set_conv_decomp)
  show ?thesis
  proof (cases "for_each xs (store_quotient N Dn i) D")
    case (Inl e)
    then show ?thesis by (simp add: js for_each_append andthen_def)
  next
    case (Inr D1)
    with row_rect [OF assms(1)] have "rect r c D1"
      by blast
    from store_quotient_out_of_range [OF this assms(2) assms(4)]
    obtain e where "store_quotient N Dn i j D1 = Inl e"
      by blast
    with Inr show ?thesis by (simp add: js for_each_append andthen_def)
  qed
qed

lemma gain_matrix_not_square:
  assumes "p \<noteq> m" "0 < p" "0 < m"
  shows "\<exists>e. gain_matrix num den p m = Inl e"
proof -
  from assms have big: "max m p > 1"
    by auto
  show ?thesis
  proof (cases "\<exists>N Dn. num = MIMO N \<and> den = MIMO Dn")
    case False
    with big show ?thesis
      by (cases num; cases den) (auto simp: gain_matrix_def)
  next
    case True
    then obtain N Dn where nd: "num = MIMO N" "den = MIMO Dn"
      by blast
    have z: "rect m p (zeros (m, p))"
      by (simp add: rect_def zeros_def list_all_iff)
    let ?f = "\<lambda>rows. for_each [0..<m] (store_quotient N Dn rows)"
    have g: "gain_matrix num den p m = for_each [0..<p] ?f (zeros (m, p))"
      using big nd by (simp add: gain_matrix_def)
    have inv: "\<And>xs D D'. rect m p D \<Longrightarrow> for_each xs ?f D = Inr D' \<Longrightarrow> rect m p D'"
      by (rule for_each_invariant [where P = "rect m p" and f = ?f]) (auto dest: row_rect)
    show ?thesis
    proof (cases "p < m")
      case True
      from assms(2) obtain ys where ps: "[0..<p] = 0 # ys"
        by (auto simp: upt_conv_Cons)
      have "p \<in> set [0..<m]"
        using True by simp
      from row_out_of_range [OF z assms(3) this, of 0 N Dn]
      obtain e where "?f 0 (zeros (m, p)) = Inl e"
        by auto
      then show ?thesis by (simp add: g ps andthen_def)
    next
      case False
      with assms(1) have "m < p"
        by simp
      then obtain k where k: "p = m + k" "0 < k"
        by (auto dest: less_imp_add_positive)
      have "[0..<m + k] = [0..<m] @ [m..<m + k]"
        by (rule upt_add_eq_append) simp
      with k have ps: "[0..<p] = [0..<m] @ m # [Suc m..<p]"
        by (simp add: upt_conv_Cons)
      show ?thesis
      proof (cases "for_each [0..<m] ?f (zeros (m, p))")
        case (Inl e)
        then show ?thesis by (simp add: g ps for_each_append andthen_def)
      next
        case (Inr D1)
        with inv [OF z] have r1: "rect m p D1"
          by blast
        have "0 \<in> set [0..<m]"
          using assms(3) by simp
        from row_out_of_range [OF r1 assms(3) this, of m N Dn]
        obtain e where "?f m D1 = Inl e"
          by auto
        with Inr show ?thesis by (simp add: g ps for_each_append andthen_def)
      qed
    qed
  qed
qed

lemma transfer_to_state_gain_raises:
  assumes "tf_isgain G" "tf_shape G = (p, m)" "p \<noteq> m" "0 < p" "0 < m"
  shows "\<exists>e. transfer_to_state rt (OfTransfer G) output = Inl e"
  using gain_matrix_not_square [OF assms(3-5), of "tf_num G" "tf_den G"] assms(1,2)
  by (auto simp: transfer_to_state_def andthen_def)

text \<open>
  C2 says that \<^verbatim>\<open>transfer_to_state\<close> with \<^verbatim>\<open>output='matrices'\<close> returns, for every static
  gain of shape \<open>(p, m)\<close>, empty \<open>A\<close>, \<open>B\<close>, \<open>C\<close> and the \<open>p\<close>-by-\<open>m\<close> matrix of the quotients. The
  code allocates \<open>D\<close> with the shape \<open>(m, p)\<close>: for the gains \<^verbatim>\<open>Transfer([[1, 2]])\<close> of shape
  \<open>(1, 2)\<close> and \<^verbatim>\<open>Transfer([[1], [2]])\<close> of shape \<open>(2, 1)\<close> the second store is out of range
  and the call raises IndexError.
\<close>

theorem transfer_to_state_gain_not_square:
  "tf_shape (gain_tf [[[[1]], [[2]]]]) = (1, 2)
   \<and> transfer_to_state rt (OfTransfer (gain_tf [[[[1]], [[2]]]])) ''matrices''
       = Inl (IndexError OutOfRange)
   \<and> tf_shape (gain_tf [[[[1]]], [[[2]]]]) = (2, 1)
   \<and> transfer_to_state rt (OfTransfer (gain_tf [[[[1]]], [[[2]]]])) ''matrices''
       = Inl (IndexError OutOfRange)"
  by (simp add: transfer_to_state_def gain_matrix_def store_quotient_def gain_tf_def grid_get_def
      store_def item_def Transfer_defs np_defs)

subsection \<open>The cascade of two State models\<close>

text \<open>
  Two dynamic models with \<open>n1\<close> and \<open>n2\<close> states: for \<open>n1 \<noteq> n2\<close> and \<open>n1 \<noteq> 1\<close> the slice
  assignment raises; for \<open>n1 = n2\<close> the result has the rows \<open>[A1, 0]\<close> above the rows
  \<open>[B1 C2, A2]\<close>.
\<close>

lemma State_matmul_broadcast_error:
  assumes dyn: "\<not> st_isgain G1" "\<not> st_isgain G2" and dt: "st_dt G1 = st_dt G2"
    and sh: "snd (st_shape G1) = fst (st_shape G2)"
    and n: "st_n G1 = Some n1" "0 < n1" "0 < n2" "0 < k"
    and a1: "rect n1 n1 (st_a G1)" and a2: "rect n2 n2 (st_a G2)"
    and b1: "rect n1 k (st_b G1)" and c2: "rect k n2 (st_c G2)"
    and ne: "n1 \<noteq> n2" "n1 \<noteq> 1"
  shows "State_matmul rt G1 G2 = Inl (ValueError Broadcast)"
proof -
  from matmul_rect [OF b1 c2 n(2) n(4)] obtain bc where
    bc: "matmul (st_b G1) (st_c G2) = Inr bc" "rect n1 n2 bc"
    by blast
  have s: "shape bc = (n1, n2)"
    using shape_rect [OF bc(2) n(2)] .
  have sa2: "nrows (st_a G2) = n2"
    using a2 by (simp add: rect_def nrows_def shape_def)
  have bd: "shape (block_diag (st_a G1) (st_a G2)) = (n1 + n2, n1 + n2)"
    using block_diag_shape [OF a1 a2 n(2)] .
  have "assign_block (block_diag (st_a G1) (st_a G2)) n1 n2 bc = Inl (ValueError Broadcast)"
    using s bd ne by (simp add: assign_block_def broadcast_to_def nrows_def ncols_def)
  then show ?thesis
    using dyn dt sh bc(1) n(1) sa2 by (simp add: State_matmul_def andthen_def)
qed

lemma State_init_arrays_a:
  "State_init rt (AArr2 A) (AArr2 B) (AArr2 C) (AArr2 D) t = Inr R \<Longrightarrow> st_a R = A"
  by (auto simp: State_init_def State_validate_arguments_def State_regularize_def
      State_check_shapes_def andthen_def Let_def split: if_splits sum.splits dest!: built_Inr)

lemma State_matmul_lower_left:
  assumes dyn: "\<not> st_isgain G1" "\<not> st_isgain G2"
    and n: "st_n G1 = Some n" "0 < n" "0 < k"
    and a1: "rect n n (st_a G1)" and a2: "rect n n (st_a G2)"
    and b1: "rect n k (st_b G1)" and c2: "rect k n (st_c G2)"
    and bc: "matmul (st_b G1) (st_c G2) = Inr bc"
    and res: "State_matmul rt G1 G2 = Inr R"
  shows "st_a R = map (\<lambda>r. r @ replicate n 0) (st_a G1) @ map2 (\<lambda>v r. v @ r) bc (st_a G2)"
proof -
  from matmul_rect [OF b1 c2 n(2) n(3)] bc have rb: "rect n n bc"
    by auto
  have s: "shape bc = (n, n)"
    using shape_rect [OF rb n(2)] .
  have sa2: "nrows (st_a G2) = n" "ncols (st_a G2) = n"
    using shape_rect [OF a2 n(2)] by (simp_all add: nrows_def ncols_def)
  have sa1: "ncols (st_a G1) = n" "length (st_a G1) = n"
    using shape_rect [OF a1 n(2)] a1 by (simp_all add: ncols_def rect_def)
  have bd: "shape (block_diag (st_a G1) (st_a G2)) = (n + n, n + n)"
    using block_diag_shape [OF a1 a2 n(2)] .
  have m2: "map2 (\<lambda>row v. v @ drop n row) (map ((@) (replicate n 0)) (st_a G2)) bc
        = map2 (\<lambda>v r. v @ r) bc (st_a G2)"
    using rb a2 by (intro nth_equalityI) (simp_all add: rect_def)
  have ab: "assign_block (block_diag (st_a G1) (st_a G2)) n n bc
      = Inr (map (\<lambda>r. r @ replicate n 0) (st_a G1) @ map2 (\<lambda>v r. v @ r) bc (st_a G2))"
    using s bd sa1 sa2 m2
    by (simp add: assign_block_def broadcast_to_def nrows_def ncols_def block_diag_def)
  from res dyn n(1) bc ab sa2 show ?thesis
    by (auto simp: State_matmul_def andthen_def split: if_splits sum.splits
        dest!: State_init_arrays_a)
qed

text \<open>
  For the two models of the theorem below and any routines: the product is the model with
  \<open>A = [[-1, 0], [1, -2]]\<close>, unless a routine that fills its caches raises.
\<close>

lemma State_matmul_lags:
  "State_matmul rt (lag (-1) None) (lag (-2) None)
     = built (State_recalc rt
          \<lparr>st_a = [[-1, 0], [1, -2]], st_b = [[0], [1]], st_c = [[1, 0]], st_d = [[0]],
           st_shape = (1, 1), st_isgain = False, st_isSISO = True, st_n = Some 2,
           st_dt = None\<rparr>)
         \<lparr>st_a = [[-1, 0], [1, -2]], st_b = [[0], [1]], st_c = [[1, 0]], st_d = [[0]],
          st_shape = (1, 1), st_isgain = False, st_isSISO = True, st_n = Some 2,
          st_dt = None\<rparr>"
  by (simp add: State_matmul_def lag_def State_defs np_defs numeral_2_eq_2)

text \<open>
  C3 says that \<^verbatim>\<open>G1 @ G2\<close> on two dynamic \<^verbatim>\<open>State\<close> models has the block \<open>B1 C2\<close> where the
  result realizes the series connection, with \<open>B = [B1 D2; B2]\<close> and \<open>C = [C1, D1 C2]\<close>. With
  these \<open>B\<close> and \<open>C\<close> the block belongs above \<open>A2\<close>, to the right of \<open>A1\<close>. The code writes it
  into the rows of \<open>A2\<close>, from the first column on. For \<open>G1 = 1 / (s + 1)\<close> and
  \<open>G2 = 1 / (s + 2)\<close> the result has \<open>A = [[-1, 0], [1, -2]]\<close>; its response to a unit pulse is
  zero, the response of the series connection is not, and the matrix
  \<open>[[-1, 1], [0, -2]]\<close> would give that response. For a first model with two states and a
  second with one the assignment cannot be broadcast and the call raises ValueError.
\<close>

theorem State_matmul_coupling_misplaced:
  "State_matmul sample_routines (lag (-1) None) (lag (-2) None)
     = Inr \<lparr>st_a = [[-1, 0], [1, -2]], st_b = [[0], [1]], st_c = [[1, 0]], st_d = [[0]],
            st_shape = (1, 1), st_isgain = False, st_isSISO = True, st_n = Some 2,
            st_dt = None\<rparr>
   \<and> response \<lparr>st_a = [[-1, 0], [1, -2]], st_b = [[0], [1]], st_c = [[1, 0]], st_d = [[0]],
            st_shape = (1, 1), st_isgain = False, st_isSISO = True, st_n = Some 2,
            st_dt = None\<rparr> [0, 0] [[1], [0], [0]] = [[0], [0], [0]]
   \<and> response (lag (-1) None) [0] (response (lag (-2) None) [0] [[1], [0], [0]])
       = [[0], [0], [1]]
   \<and> response \<lparr>st_a = [[-1, 1], [0, -2]], st_b = [[0], [1]], st_c = [[1, 0]], st_d = [[0]],
            st_shape = (1, 1), st_isgain = False, st_isSISO = True, st_n = Some 2,
            st_dt = None\<rparr> [0, 0] [[1], [0], [0]] = [[0], [0], [1]]
   \<and> State_matmul rt two_states (lag (-2) None) = Inl (ValueError Broadcast)"
  by (simp add: State_matmul_def lag_def two_states_def mat_vec_def State_defs sample_defs np_defs)

text \<open>With one state in the first model and two in the second, rows of \<open>A2\<close> are overwritten.\<close>

lemma State_matmul_overwrites:
  "map_sum id st_a (State_matmul sample_routines (lag (-2) None) two_states)
     = Inr [[-2, 0, 0], [1, 0, 1], [1, 0, -3]]"
  by (simp add: State_matmul_def lag_def two_states_def State_defs sample_defs np_defs)

subsection \<open>Transfer @ array\<close>

text \<open>
  Whatever the sum over the shared index gives, the first pass of the loop ends in an
  exception, for every dynamic MIMO model and every array with matching rows and some
  columns (an array of one element is a scalar factor and takes another path).
\<close>

lemma Transfer_matmul_array_raises:
  assumes "\<not> tf_isSISO G" "\<not> tf_isgain G" "array_size M \<noteq> 1" "snd (tf_shape G) = nrows M"
    and "0 < fst (tf_shape G)" "0 < ncols M"
  shows "\<exists>e. Transfer_matmul_array rt t_G G M = Inl e"
proof -
  from assms(5) have rows: "[0..<fst (tf_shape G)] = 0 # [1..<fst (tf_shape G)]"
    by (simp add: upt_conv_Cons)
  from assms(6) have cols: "[0..<ncols M] = 0 # [1..<ncols M]"
    by (simp add: upt_conv_Cons)
  show ?thesis
    using assms(1-4)
    by (cases "t_G 0 0")
      (simp_all add: Transfer_matmul_array_def Let_def rows cols andthen_def grid_set_def grid_of_def)
qed

text \<open>
  So the call returns only for a model without outputs or an array without columns, when the
  loop makes no pass and the holders have no entries.
\<close>

lemma Transfer_matmul_array_returns_without_entries:
  assumes "\<not> tf_isSISO G" "\<not> tf_isgain G" "array_size M \<noteq> 1" "snd (tf_shape G) = nrows M"
    and "Transfer_matmul_array rt t_G G M = Inr R"
  shows "fst (tf_shape G) = 0 \<or> ncols M = 0"
  using Transfer_matmul_array_raises [of G M rt t_G] assms by auto

text \<open>
  C4 says that \<^verbatim>\<open>G @ M\<close>, for a dynamic MIMO \<^verbatim>\<open>Transfer\<close> and a real matrix with as many rows
  as \<open>G\<close> has inputs, is the \<^verbatim>\<open>Transfer\<close> of the sums over the shared index. The loop stores
  every entry at \<^verbatim>\<open>newnum[tp][tm]\<close>, one past the last row: for the 2-by-2 model with the
  entries \<open>1 / (s + 1)\<close> and the identity matrix the call raises the exception of the sum, if
  that raises, and IndexError otherwise.
\<close>

theorem Transfer_matmul_array_index_error:
  "Transfer_matmul_array rt t_G lags_2x2 [[1, 0], [0, 1]]
     = (case t_G 0 0 of Inl e \<Rightarrow> Inl e | Inr t \<Rightarrow> Inl (IndexError OutOfRange))"
  by (simp add: Transfer_matmul_array_def lags_2x2_def grid_set_def Transfer_defs np_defs upt_rec
      split: sum.splits)

text \<open>
  For a model with one input a matching matrix of one column has one element; it is a
  scalar factor, and that path builds the product.
\<close>

lemma Transfer_matmul_array_scalar:
  "Transfer_matmul_array rt t_G lags_2x1 [[3]]
     = built (Transfer_recalc rt (lags_2x1\<lparr>tf_num := MIMO [[[[3]]], [[[3]]]]\<rparr>))
         (lags_2x1\<lparr>tf_num := MIMO [[[[3]]], [[[3]]]]\<rparr>)"
  by (simp add: Transfer_matmul_array_def Transfer_mul_scalar_def lags_2x1_def build_grid_def
      grid_get_def scale_def Transfer_defs np_defs upt_rec numeral_2_eq_2)

subsection \<open>The sampling period of a sum\<close>

lemma State_init_dt_False: "State_init rt a b c d DtFalse = Inr R \<Longrightarrow> st_dt R = None"
  by (auto simp: State_init_def andthen_def set_SamplingPeriod_def Let_def
      split: sum.splits prod.splits if_splits dest!: built_Inr)

lemma Transfer_init_dt_False: "Transfer_init rt n d DtFalse = Inr R \<Longrightarrow> tf_dt R = None"
  by (auto simp: Transfer_init_def andthen_def set_SamplingPeriod_def Let_def
      split: sum.splits prod.splits dest!: built_Inr)

text \<open>
  The sum of two dynamic \<^verbatim>\<open>State\<close> models, and the sum of two SISO \<^verbatim>\<open>Transfer\<close> models that
  are not both gains, is built without \<^verbatim>\<open>dt\<close>: it is a continuous-time model.
\<close>

lemma State_add_dynamic_dt:
  "\<not> st_isgain G \<Longrightarrow> \<not> st_isgain H \<Longrightarrow> State_add rt G H = Inr R \<Longrightarrow> st_dt R = None"
  by (auto simp: State_add_def andthen_def split: if_splits sum.splits dest: State_init_dt_False)

lemma Transfer_add_SISO_dt:
  "tf_isSISO G \<Longrightarrow> \<not> (tf_isgain G \<and> tf_isgain H) \<Longrightarrow> Transfer_add rt po G H = Inr R \<Longrightarrow>
   tf_dt R = None"
  by (auto simp: Transfer_add_def andthen_def
      split: if_splits sum.splits prod.splits tfdata.splits dest: Transfer_init_dt_False)

text \<open>The test of the specification: the sum is built, as a continuous-time model.\<close>

lemma Transfer_add_drops_sampling_period:
  "Transfer_add sample_routines same_den_polyops (lag_tf (Some (1/10))) (lag_tf (Some (1/10)))
     = Inr \<lparr>tf_num = SISO [[2]], tf_den = SISO [[1, 1]], tf_shape = (1, 1), tf_isgain = False,
            tf_isSISO = True, tf_dt = None\<rparr>"
  by (simp add: Transfer_add_def add_entry_def np_convolve_def radd_def same_den_polyops_def
      lag_tf_def Transfer_defs sample_defs np_defs)

lemma Transfer_add_sampling_mismatch:
  "Transfer_add rt po (lag_tf (Some (1/10))) (lag_tf (Some (2/10))) = Inl (TypeError SamplingMismatch)"
  by (simp add: Transfer_add_def lag_tf_def)

text \<open>
  For the two models of the theorem below and any routines: the sum is the model without
  sampling period, unless a routine that fills its caches raises.
\<close>

lemma State_add_lags:
  "State_add rt (lag (-1) (Some (1/10))) (lag (-1) (Some (1/10)))
     = built (State_recalc rt
          \<lparr>st_a = [[-1, 0], [0, -1]], st_b = [[1], [1]], st_c = [[1, 1]], st_d = [[0]],
           st_shape = (1, 1), st_isgain = False, st_isSISO = True, st_n = Some 2,
           st_dt = None\<rparr>)
         \<lparr>st_a = [[-1, 0], [0, -1]], st_b = [[1], [1]], st_c = [[1, 1]], st_d = [[0]],
          st_shape = (1, 1), st_isgain = False, st_isSISO = True, st_n = Some 2,
          st_dt = None\<rparr>"
  by (simp add: State_add_def lag_def State_defs np_defs numeral_2_eq_2)

text \<open>
  C5 says that the sum of two dynamic models of one type, of equal shape and sampling
  period, carries that sampling period. For \<^verbatim>\<open>State(-1, 1, 1, 0, dt=0.1)\<close> added to itself
  the sum is built, and its sampling period is \<^verbatim>\<open>None\<close>.
\<close>

theorem State_add_drops_sampling_period:
  "st_dt (lag (-1) (Some (1/10))) = Some (1/10)
   \<and> State_add sample_routines (lag (-1) (Some (1/10))) (lag (-1) (Some (1/10)))
       = Inr \<lparr>st_a = [[-1, 0], [0, -1]], st_b = [[1], [1]], st_c = [[1, 1]], st_d = [[0]],
              st_shape = (1, 1), st_isgain = False, st_isSISO = True, st_n = Some 2,
              st_dt = None\<rparr>"
  by (simp add: State_add_def lag_def State_defs sample_defs np_defs)

subsection \<open>The sum of two static gains\<close>

text \<open>
  The sum of two MIMO static gains, when it is built at all, has as many rows as both
  operands together.
\<close>

lemma is_list_grid: "list_all is_list (map (\<lambda>row. PList (map PArr2 row)) L)"
  by (simp add: list_all_iff)

lemma Transfer_regularize_grid:
  assumes "2 \<le> length L" "Transfer_regularize (AVal (grid_py L)) = Inr x"
  shows "\<exists>N. x = Some (MIMO N) \<and> length N = length L"
  using assms
  by (auto simp: grid_py_def is_list_grid Let_def split: if_splits option.splits)

lemma Transfer_init_grid_rows:
  assumes "2 \<le> length L" "Transfer_init rt (AVal (grid_py L)) ANone t = Inr R"
  shows "fst (tf_shape R) = length L"
proof -
  from assms(2) obtain x where x: "Transfer_regularize (AVal (grid_py L)) = Inr x"
    by (auto simp: Transfer_init_def Transfer_validate_arguments_def andthen_def split: sum.splits)
  from Transfer_regularize_grid [OF assms(1) x] obtain N where
    N: "x = Some (MIMO N)" "length N = length L"
    by blast
  from assms(2) x N show ?thesis
    by (auto simp: Transfer_init_def Transfer_validate_arguments_def andthen_def num_MIMO_def
        finalize_def grid_shape_def Let_def split: sum.splits if_splits dest!: built_Inr)
qed

lemma Transfer_add_MIMO_gains_rows:
  assumes "tf_isgain G" "tf_isgain H" "tf_num G = MIMO N1" "tf_num H = MIMO N2"
    and "N1 \<noteq> []" "N2 \<noteq> []" and "Transfer_add rt po G H = Inr R"
  shows "fst (tf_shape R) = length N1 + length N2"
proof -
  from assms(5,6) have l: "2 \<le> length (N1 @ N2)"
    by (cases N1; cases N2) simp_all
  from assms(1-4,7) have "Transfer_init rt (AVal (grid_py (N1 @ N2))) ANone (dt_of (tf_dt G)) = Inr R"
    by (auto simp: Transfer_add_def andthen_def split: if_splits)
  from Transfer_init_grid_rows [OF l this] show ?thesis
    by simp
qed

text \<open>
  C6 says that the sum of two static-gain \<^verbatim>\<open>Transfer\<close> models of shape \<open>(p, m)\<close> is the gain of
  that shape with the sums of the entries. For MIMO gains the numerators are Python lists
  and \<^verbatim>\<open>+\<close> appends them: the sum of \<^verbatim>\<open>Transfer([[1, 2], [3, 4]])\<close> with itself has the shape
  \<open>(4, 2)\<close>. For SISO gains the numerators are added and the denominators dropped: one half
  plus one half is the gain 2.
\<close>

theorem Transfer_add_gains:
  "Transfer_add rt po (gain_tf [[[[1]], [[2]]], [[[3]], [[4]]]]) (gain_tf [[[[1]], [[2]]], [[[3]], [[4]]]])
     = Inr (gain_tf [[[[1]], [[2]]], [[[3]], [[4]]], [[[1]], [[2]]], [[[3]], [[4]]]])
   \<and> tf_shape (gain_tf [[[[1]], [[2]]], [[[3]], [[4]]], [[[1]], [[2]]], [[[3]], [[4]]]]) = (4, 2)
   \<and> to_array half = Inr [[1/2]]
   \<and> Transfer_add rt po half half = Inr (half\<lparr>tf_num := SISO [[2]], tf_den := SISO [[1]]\<rparr>)
   \<and> to_array (half\<lparr>tf_num := SISO [[2]], tf_den := SISO [[1]]\<rparr>) = Inr [[2]]"
  by (simp add: Transfer_add_def gain_tf_def half_def to_array_def Transfer_defs np_defs)

subsection \<open>Causality of a SISO pair\<close>

lemma Transfer_regularize_flat:
  "xs \<noteq> [] \<Longrightarrow> Transfer_regularize (AList (map PNum xs)) = Inr (Some (SISO [xs]))"
  by (cases xs) (simp_all add: list_all_iff comp_def)

text \<open>
  What the validator does on two nonempty lists of numbers: it raises exactly when the
  numerator list is the longer one, and then the causality error. The constructor raises
  that error in the same case, before anything else is computed.
\<close>

lemma Transfer_validate_arguments_SISO_fails_iff:
  assumes "num \<noteq> []" "den \<noteq> []"
  shows "(\<exists>e. Transfer_validate_arguments (AList (map PNum num)) (AList (map PNum den)) = Inl e)
           \<longleftrightarrow> length num > length den"
    and "Transfer_validate_arguments (AList (map PNum num)) (AList (map PNum den)) = Inl e
           \<Longrightarrow> e = ValueError Noncausal"
  using assms
  by (auto simp add: Transfer_validate_arguments_def Transfer_regularize_flat
      andthen_def both_SISO_def finalize_def array_size_def
      simp del: Transfer_regularize.simps split: if_splits)

lemma Transfer_init_validator_error:
  "Transfer_validate_arguments num den = Inl e \<Longrightarrow> Transfer_init rt num den dt = Inl e"
  by (simp add: Transfer_init_def andthen_def)

text \<open>
  C7 says that the construction from a SISO pair fails with a causality error exactly when
  the degree of the numerator exceeds that of the denominator, the degrees taken after
  trimming leading zeros. The check compares the lengths as given:
  \<^verbatim>\<open>Transfer([0, 0, 1], [1, 1])\<close> (degrees 0 and 1) fails with the causality error, in the
  validator and so in the constructor, whatever the routines do; and for the pair
  \<^verbatim>\<open>[1, 1]\<close>, \<^verbatim>\<open>[0, 0, 1]\<close> (degrees 1 and 0) the validator raises no causality error and
  returns the pair as it was given.
\<close>

theorem Transfer_causality_untrimmed:
  "degree [0, 0, 1] = 0 \<and> degree [1, 1] = 1
   \<and> Transfer_validate_arguments (AList [PNum 0, PNum 0, PNum 1]) (AList [PNum 1, PNum 1])
       = Inl (ValueError Noncausal)
   \<and> Transfer_init rt (AList [PNum 0, PNum 0, PNum 1]) (AList [PNum 1, PNum 1]) DtFalse
       = Inl (ValueError Noncausal)
   \<and> Transfer_validate_arguments (AList [PNum 1, PNum 1]) (AList [PNum 0, PNum 0, PNum 1])
       = Inr (SISO [[1, 1]], SISO [[0, 0, 1]], (1, 1), False)"
  by (simp add: Transfer_defs np_defs degree_def)

text \<open>The test of the specification: \<^verbatim>\<open>Transfer([1, 0, 0], [1, 1])\<close> is rejected.\<close>

lemma Transfer_init_noncausal:
  "Transfer_init rt (AList [PNum 1, PNum 0, PNum 0]) (AList [PNum 1, PNum 1]) DtFalse
     = Inl (ValueError Noncausal)"
  by (simp add: Transfer_defs np_defs)

subsection \<open>The setter of num\<close>

text \<open>An exception of the validator leaves the setter before anything is assigned.\<close>

lemma num_setter_validator_error:
  "Transfer_validate_arguments v (AVal (to_py (tf_den G))) = Inl e \<Longrightarrow>
   num_setter rt G v = (Some e, G)"
  by (simp add: num_setter_def)




text \<open>
  The constructor establishes the invariant; shown here for a denominator that is left out
  or is common to all entries (a number, a flat list of numbers or a 1-D array).
\<close>

lemma Transfer_regularize_MIMO_shape:
  "Transfer_regularize x = Inr (Some (MIMO N)) \<Longrightarrow> N \<noteq> [] \<and> grid_shape N \<noteq> (1, 1)"
proof (cases x)
  case ANone then show "Transfer_regularize x = Inr (Some (MIMO N)) \<Longrightarrow> ?thesis" by simp
next
  case AObj then show "Transfer_regularize x = Inr (Some (MIMO N)) \<Longrightarrow> ?thesis" by simp
next
  case (AVal v)
  assume r: "Transfer_regularize x = Inr (Some (MIMO N))"
  show ?thesis
  proof (cases v)
    case (PList xs)
    with r AVal show ?thesis
      by (cases xs) (auto simp: Let_def grid_shape_def split: if_splits option.splits)
  next
    case (PArr2 M)
    with r AVal show ?thesis
      by (cases M) (auto simp: grid_shape_def nrows_def ncols_def shape_def split: if_splits)
  qed (use r AVal in simp_all)
qed

lemma grid_of_wf:
  assumes "N \<noteq> []" "grid_shape N \<noteq> (1, 1)"
  shows "grid_of (grid_shape N) x \<noteq> [] \<and> grid_shape (grid_of (grid_shape N) x) = grid_shape N
     \<and> list_all (\<lambda>row. length row = snd (grid_shape N)) (grid_of (grid_shape N) x)"
  using assms by (cases N) (auto simp: grid_of_def grid_shape_def list_all_iff)

lemma Transfer_init_wf:
  assumes "Transfer_init rt num den dt = Inr G"
    and "den = ANone \<or> (\<exists>x. den = ANum x) \<or> (\<exists>xs. den = AArr1 xs) \<or> (\<exists>xs. den = AList (map PNum xs))"
  shows "Transfer_wf G"
proof -
  from assms(1) obtain n d s g where v: "Transfer_validate_arguments num den = Inr (n, d, s, g)"
    and G: "tf_den G = d" "tf_shape G = s" "tf_isSISO G = (s = (1, 1))"
    by (auto simp: Transfer_init_def andthen_def Let_def split: sum.splits dest!: built_Inr)
  have "(\<exists>e. Transfer_regularize den = Inl e) \<or> Transfer_regularize den = Inr None
      \<or> (\<exists>xs. Transfer_regularize den = Inr (Some (SISO [xs])))"
  proof -
    have "(\<exists>e. Transfer_regularize (AList (map PNum xs)) = Inl e)
        \<or> (\<exists>ys. Transfer_regularize (AList (map PNum xs)) = Inr (Some (SISO [ys])))" for xs
      using Transfer_regularize_flat [of xs] by (cases xs) simp_all
    then have flat: "(\<exists>e. Transfer_regularize den = Inl e)
        \<or> (\<exists>ys. Transfer_regularize den = Inr (Some (SISO [ys])))"
      if "den = AList (map PNum xs)" for xs
      unfolding that by blast
    from assms(2) show ?thesis
    proof (elim disjE exE)
      assume "den = ANone"
      then show ?thesis by simp
    next
      fix x assume "den = ANum x"
      then show ?thesis by simp
    next
      fix xs assume "den = AArr1 xs"
      then show ?thesis by simp
    next
      fix xs assume "den = AList (map PNum xs)"
      from flat [OF this] show ?thesis by blast
    qed
  qed
  moreover from v obtain dr0 where "Transfer_regularize den = Inr dr0"
    by (auto simp: Transfer_validate_arguments_def andthen_def split: sum.splits)
  ultimately obtain dr where dr: "Transfer_regularize den = Inr dr"
    "dr = None \<or> (\<exists>xs. dr = Some (SISO [xs]))"
    by auto
  from v obtain nr where nr: "Transfer_regularize num = Inr nr"
    by (auto simp: Transfer_validate_arguments_def andthen_def split: sum.splits)
  show ?thesis
  proof (cases "\<exists>N. nr = Some (MIMO N)")
    case True
    then obtain N where N: "nr = Some (MIMO N)" by blast
    from Transfer_regularize_MIMO_shape nr N have sh: "N \<noteq> []" "grid_shape N \<noteq> (1, 1)"
      by blast+
    from v nr dr N obtain x where "d = MIMO (grid_of (grid_shape N) x)" "s = grid_shape N"
      by (auto simp: Transfer_validate_arguments_def andthen_def num_MIMO_def finalize_def
          split: sum.splits if_splits)
    with grid_of_wf [OF sh, of x] sh G show ?thesis
      by (simp add: Transfer_wf_def)
  next
    case False
    with v nr dr obtain Dm where "d = SISO Dm" "s = (1, 1)" "nrows Dm = 1"
      by (cases nr; cases "the nr")
        (auto simp: Transfer_validate_arguments_def andthen_def both_SISO_def finalize_def
          nrows_def shape_def split: sum.splits if_splits)
    with G show ?thesis
      by (simp add: Transfer_wf_def)
  qed
qed




text \<open>
  A value that is not a grid induces no shape of its own: a flat list is a common numerator
  of every entry of a MIMO model, and of the model's shape for a SISO model. It is
  assigned, and then the caches are filled.
\<close>

lemma num_setter_same_shape:
  "num_setter rt (lag_tf None) (AList [PNum 2])
     = (companion_eigvals rt [[1, 1]], (lag_tf None)\<lparr>tf_num := SISO [[2]]\<rparr>)"
  by (simp add: num_setter_def lag_tf_def Transfer_defs Transfer_recalc_SISO_constant np_defs)

lemma num_setter_common_numerator:
  "num_setter rt lags_2x2 (AList [PNum 2])
     = (Transfer_recalc rt (lags_2x2\<lparr>tf_num := MIMO [[[[2]], [[2]]], [[[2]], [[2]]]]\<rparr>),
        lags_2x2\<lparr>tf_num := MIMO [[[[2]], [[2]]], [[[2]], [[2]]]]\<rparr>)"
  by (simp add: num_setter_def lags_2x2_def Transfer_defs np_defs numeral_2_eq_2)

text \<open>
  The numerator is assigned before the caches are filled: whatever the routines do on the
  new numerator \<open>[0, 1]\<close>, and also when they raise, the model has it after the call.
\<close>

lemma num_setter_assigns_before_recalc:
  "snd (num_setter rt (lag_tf None) (AList [PNum 0, PNum 1]))
     = (lag_tf None)\<lparr>tf_num := SISO [[0, 1]]\<rparr>"
  by (simp add: num_setter_def lag_tf_def Transfer_defs np_defs)

end
